theory Spec2Isabelle
  imports Complex_Main "HOL-Library.Log_Nat"
begin

section \<open>JavaScript numbers\<close>

text \<open>
  The program computes with JavaScript numbers, that is IEEE 754 doubles. A finite double
  is a rational number, so a number is \<open>NaN\<close> or \<open>Num q\<close>. Every arithmetic operation
  computes the exact rational result and rounds it to 53 significant bits, ties to even
  (\<open>fl\<close>). The exponent range is not bounded and there are no infinities and no negative
  zero: the model is exact for results in the normal range of doubles, which is where
  this program's minutes, percentages and scores live.
\<close>

datatype jsnum = NaN | Num rat

definition rne :: "rat \<Rightarrow> int" where
  \<comment> \<open>round to the nearest integer, ties to the even one\<close>
  "rne x = (let f = \<lfloor>x\<rfloor>; d = x - of_int f in
     if d < 1/2 then f else if 1/2 < d then f + 1 else if even f then f else f + 1)"

definition expo :: "rat \<Rightarrow> int" where
  \<comment> \<open>for \<open>0 < x\<close>: the binary exponent \<open>e\<close> with \<open>2^e \<le> x < 2^(e+1)\<close>\<close>
  "expo x = (if 1 \<le> x then int (floorlog 2 (nat \<lfloor>x\<rfloor>)) - 1
             else - int (floorlog 2 (nat (\<lceil>1 / x\<rceil> - 1))))"

definition fl :: "rat \<Rightarrow> rat" where
  \<comment> \<open>the double nearest to \<open>x\<close>\<close>
  "fl x = (if x = 0 then 0 else
     let e = expo \<bar>x\<bar>; n = rne (\<bar>x\<bar> * 2 powi (52 - e)) in sgn x * of_int n * 2 powi (e - 52))"

definition lit :: "rat \<Rightarrow> jsnum" where
  \<comment> \<open>a decimal literal of the source, such as \<open>0.7\<close>\<close>
  "lit q = Num (fl q)"

fun jadd :: "jsnum \<Rightarrow> jsnum \<Rightarrow> jsnum" where
  "jadd (Num a) (Num b) = Num (fl (a + b))"
| "jadd _ _ = NaN"

fun jsub :: "jsnum \<Rightarrow> jsnum \<Rightarrow> jsnum" where
  "jsub (Num a) (Num b) = Num (fl (a - b))"
| "jsub _ _ = NaN"

fun jmul :: "jsnum \<Rightarrow> jsnum \<Rightarrow> jsnum" where
  "jmul (Num a) (Num b) = Num (fl (a * b))"
| "jmul _ _ = NaN"

fun jdiv :: "jsnum \<Rightarrow> jsnum \<Rightarrow> jsnum" where
  \<comment> \<open>\<open>0 / 0\<close> is \<open>NaN\<close>. A nonzero number divided by zero is an infinity in JavaScript;
      the program's only division by a possibly zero divisor is
      \<open>completedSteps / responseSteps.length\<close>, where the dividend is then zero as well.\<close>
  "jdiv (Num a) (Num b) = (if b = 0 then NaN else Num (fl (a / b)))"
| "jdiv _ _ = NaN"

fun Math_floor :: "jsnum \<Rightarrow> jsnum" where
  "Math_floor (Num a) = Num (of_int \<lfloor>a\<rfloor>)"
| "Math_floor NaN = NaN"

fun Math_round :: "jsnum \<Rightarrow> jsnum" where
  \<comment> \<open>the nearest integer, a tie going towards plus infinity\<close>
  "Math_round (Num a) = Num (of_int \<lfloor>a + 1/2\<rfloor>)"
| "Math_round NaN = NaN"

fun Math_min :: "jsnum \<Rightarrow> jsnum \<Rightarrow> jsnum" where
  "Math_min (Num a) (Num b) = Num (min a b)"
| "Math_min _ _ = NaN"

fun jlt :: "jsnum \<Rightarrow> jsnum \<Rightarrow> bool" where
  "jlt (Num a) (Num b) = (a < b)"
| "jlt _ _ = False"

fun jle :: "jsnum \<Rightarrow> jsnum \<Rightarrow> bool" where
  "jle (Num a) (Num b) = (a \<le> b)"
| "jle _ _ = False"

definition jgt :: "jsnum \<Rightarrow> jsnum \<Rightarrow> bool" where
  "jgt a b = jlt b a"

definition jge :: "jsnum \<Rightarrow> jsnum \<Rightarrow> bool" where
  "jge a b = jle b a"

fun truthy_num :: "jsnum \<Rightarrow> bool" where
  \<comment> \<open>a number is falsy when it is zero or \<open>NaN\<close>\<close>
  "truthy_num (Num a) = (a \<noteq> 0)"
| "truthy_num NaN = False"

section \<open>Strings, times and errors\<close>

text \<open>
  A time stamp is what \<open>new Date().toISOString()\<close> returns. The ISO string and the
  millisecond count it is parsed back to by \<open>new Date(s)\<close> determine each other, so a
  time stamp is the millisecond count. A property that holds \<open>null\<close> or is absent is
  \<open>None\<close> where the code only tests it for truth. The start and completion times of a plan
  are also passed to \<open>new Date\<close>, which tells \<open>null\<close> from \<open>undefined\<close>: they are values of
  \<open>time_value\<close>. The clock and the random draws are arguments of the functions that read
  them; the clock readings within one call are one instant. An exception is the value
  \<open>Inl TypeError\<close> of the function that throws it.
\<close>

type_synonym timestamp = int

datatype error = TypeError

datatype time_value = Undefined | Null | IsoString timestamp

definition ms_of :: "time_value \<Rightarrow> jsnum" where
  \<comment> \<open>\<open>new Date(x)\<close> read as a number: an invalid date for \<open>undefined\<close>, the epoch for \<open>null\<close>\<close>
  "ms_of x = (case x of Undefined \<Rightarrow> NaN | Null \<Rightarrow> Num 0 | IsoString m \<Rightarrow> Num (of_int m))"

definition truthy_time :: "time_value \<Rightarrow> bool" where
  \<comment> \<open>a time stamp is a string that is not empty\<close>
  "truthy_time x = (case x of IsoString m \<Rightarrow> True | _ \<Rightarrow> False)"

definition str_of :: "string option \<Rightarrow> string" where
  \<comment> \<open>a value inside a template literal\<close>
  "str_of s = (case s of None \<Rightarrow> ''undefined'' | Some x \<Rightarrow> x)"

definition digit_char :: "nat \<Rightarrow> char" where
  "digit_char d = (''0123456789abcdefghijklmnopqrstuvwxyz'' ! d)"

fun to_radix :: "nat \<Rightarrow> nat \<Rightarrow> nat \<Rightarrow> string" where
  \<comment> \<open>\<open>n.toString(b)\<close> for a natural number, with at most \<open>fuel + 1\<close> digits\<close>
  "to_radix b 0 n = [digit_char (n mod b)]"
| "to_radix b (Suc fuel) n =
     (if n < b then [digit_char n] else to_radix b fuel (n div b) @ [digit_char (n mod b)])"

definition show_nat :: "nat \<Rightarrow> string" where
  "show_nat n = to_radix 10 n n"

definition upper_char :: "char \<Rightarrow> char" where
  "upper_char c = (let k = of_char c :: nat in if 97 \<le> k \<and> k \<le> 122 then char_of (k - 32) else c)"

definition toUpperCase :: "string \<Rightarrow> string" where
  "toUpperCase s = map upper_char s"

fun indexOf :: "'a list \<Rightarrow> 'a \<Rightarrow> int" where
  \<comment> \<open>\<open>xs.indexOf(x)\<close>: the first position of \<open>x\<close>, or \<open>-1\<close>\<close>
  "indexOf [] x = -1"
| "indexOf (y # ys) x = (if y = x then 0 else let i = indexOf ys x in if i < 0 then -1 else i + 1)"

definition nth_opt :: "'a list \<Rightarrow> jsnum \<Rightarrow> 'a option" where
  \<comment> \<open>\<open>xs[i]\<close> for a number \<open>i\<close>: \<open>undefined\<close> unless \<open>i\<close> is an index of \<open>xs\<close>\<close>
  "nth_opt xs i = (case i of NaN \<Rightarrow> None
     | Num q \<Rightarrow> if q = of_int \<lfloor>q\<rfloor> \<and> 0 \<le> q \<and> \<lfloor>q\<rfloor> < int (length xs) then Some (xs ! nat \<lfloor>q\<rfloor>) else None)"

section \<open>The enumerations of \<open>threatDetection\<close>\<close>

abbreviation SEVERITY_LOW :: string where "SEVERITY_LOW \<equiv> ''low''"
abbreviation SEVERITY_MEDIUM :: string where "SEVERITY_MEDIUM \<equiv> ''medium''"
abbreviation SEVERITY_HIGH :: string where "SEVERITY_HIGH \<equiv> ''high''"
abbreviation SEVERITY_CRITICAL :: string where "SEVERITY_CRITICAL \<equiv> ''critical''"

abbreviation UNAUTHORIZED_ACCESS :: string where "UNAUTHORIZED_ACCESS \<equiv> ''Unauthorized Access''"
abbreviation DATA_MANIPULATION :: string where "DATA_MANIPULATION \<equiv> ''Data Manipulation''"
abbreviation DENIAL_OF_SERVICE :: string where "DENIAL_OF_SERVICE \<equiv> ''Denial of Service''"
abbreviation MALWARE :: string where "MALWARE \<equiv> ''Malware Infection''"
abbreviation RANSOMWARE :: string where "RANSOMWARE \<equiv> ''Ransomware''"
abbreviation FIRMWARE_TAMPERING :: string where "FIRMWARE_TAMPERING \<equiv> ''Firmware Tampering''"
abbreviation COMMUNICATION_HIJACKING :: string where "COMMUNICATION_HIJACKING \<equiv> ''Communication Hijacking''"
abbreviation CREDENTIAL_THEFT :: string where "CREDENTIAL_THEFT \<equiv> ''Credential Theft''"
abbreviation PHYSICAL_TAMPERING :: string where "PHYSICAL_TAMPERING \<equiv> ''Physical Tampering''"

abbreviation THREAT_STATUS_NEW :: string where "THREAT_STATUS_NEW \<equiv> ''new''"
abbreviation THREAT_STATUS_DETECTED :: string where "THREAT_STATUS_DETECTED \<equiv> ''detected''"

section \<open>Threat classifier\<close>

record device =
  device_id :: string
  device_name :: string
  device_type :: string

record behavior =
  b_deviceId :: string
  anomalyScore :: "jsnum option"
  patterns :: "string list"
  b_timestamp :: timestamp
  isAnomaly :: bool

definition analyzeDeviceBehavior :: "rat \<Rightarrow> timestamp \<Rightarrow> device \<Rightarrow> behavior" where
  \<comment> \<open>\<open>r\<close> is the value of \<open>Math.random()\<close>; the parameter \<open>historicalData\<close> is never read\<close>
  "analyzeDeviceBehavior r now dev =
     (let score = Num r;
          pats =
            (if device_type dev = ''camera'' \<and> jgt score (lit (7/10)) then
               [''Unusual access pattern'', ''Irregular data transmission'']
             else if device_type dev = ''trafficLight'' \<and> jgt score (lit (8/10)) then
               [''Signal timing manipulation'', ''Unexpected configuration changes'']
             else if device_type dev = ''waterSensor'' \<and> jgt score (lit (75/100)) then
               [''Reading fluctuation outside normal parameters'', ''Calibration drift'']
             else if jgt score (lit (9/10)) then
               [''Communication protocol violation'', ''Unexpected firmware behavior'']
             else [])
      in \<lparr> b_deviceId = device_id dev, anomalyScore = Some score, patterns = pats,
           b_timestamp = now, isAnomaly = jgt score (lit (7/10)) \<rparr>)"

record classification =
  c_type :: string
  c_severity :: string
  c_confidence :: jsnum
  impactLevel :: string
  c_description :: string
  c_recommendedActions :: "string list"
  c_timestamp :: timestamp
  c_status :: string

definition available_score :: "behavior option \<Rightarrow> jsnum option" where
  \<comment> \<open>the test \<open>behavior && behavior.anomalyScore\<close>: the score when the test succeeds\<close>
  "available_score b =
     (case b of None \<Rightarrow> None
      | Some bh \<Rightarrow> (case anomalyScore bh of None \<Rightarrow> None
                   | Some sc \<Rightarrow> if truthy_num sc then Some sc else None))"

definition classifyThreat :: "timestamp \<Rightarrow> string \<Rightarrow> string \<Rightarrow> behavior option \<Rightarrow> classification" where
  "classifyThreat now threatType severity b =
     (let confidence =
            (case available_score b of
               Some sc \<Rightarrow> jadd (lit (5/10)) (jmul sc (lit (4/10)))
             | None \<Rightarrow> lit (7/10));
          impact =
            (if severity = SEVERITY_CRITICAL then ''severe''
             else if severity = SEVERITY_HIGH then ''significant''
             else if severity = SEVERITY_MEDIUM then ''moderate''
             else if severity = SEVERITY_LOW then ''minor''
             else ''unknown'');
          (descr, actions) =
            (if threatType = UNAUTHORIZED_ACCESS then
               (''Unauthorized access attempt detected with unusual authentication patterns'',
                [''Lock affected accounts'', ''Force password reset'', ''Review access logs'',
                 ''Enable additional authentication factors''])
             else if threatType = DATA_MANIPULATION then
               (''Abnormal data modification detected outside of expected parameters'',
                [''Restore from backup'', ''Verify data integrity'', ''Audit recent changes'',
                 ''Implement additional validation checks''])
             else if threatType = FIRMWARE_TAMPERING then
               (''Unauthorized firmware modifications or configuration changes detected'',
                [''Restore original firmware'', ''Isolate affected device'', ''Scan for malicious code'',
                 ''Update security patches''])
             else if threatType = COMMUNICATION_HIJACKING then
               (''Abnormal communication patterns indicating potential hijacking'',
                [''Isolate affected systems'', ''Reset communication channels'',
                 ''Implement additional encryption'', ''Monitor for unusual traffic patterns''])
             else if threatType = MALWARE then
               (''Malicious software detected with abnormal system behavior'',
                [''Isolate affected systems'', ''Run full system scan'', ''Remove identified malware'',
                 ''Update antivirus definitions''])
             else if threatType = RANSOMWARE then
               (''Potential ransomware activity with file encryption patterns'',
                [''Disconnect from network immediately'', ''Isolate affected systems'',
                 ''Restore from clean backups'', ''Report to authorities''])
             else if threatType = DENIAL_OF_SERVICE then
               (''Abnormal traffic patterns indicating potential DoS attack'',
                [''Implement traffic filtering'', ''Scale resources if possible'',
                 ''Contact network provider'', ''Analyze traffic patterns''])
             else if threatType = CREDENTIAL_THEFT then
               (''Suspicious authentication attempts indicating credential theft'',
                [''Force password reset'', ''Enable multi-factor authentication'', ''Review access logs'',
                 ''Monitor for unusual account activity''])
             else
               (''Unknown threat type detected with suspicious behavior'',
                [''Monitor system activity'', ''Backup critical data'', ''Review security logs'',
                 ''Prepare for escalation if needed'']))
      in \<lparr> c_type = threatType, c_severity = severity, c_confidence = confidence,
           impactLevel = impact, c_description = descr, c_recommendedActions = actions,
           c_timestamp = now, c_status = THREAT_STATUS_DETECTED \<rparr>)"

definition determineAffectedSystems :: "device \<Rightarrow> string option \<Rightarrow> string list" where
  "determineAffectedSystems dev threatType =
     (if device_type dev = ''trafficLight'' then
        [''Traffic Management System''] @
        (if threatType = Some COMMUNICATION_HIJACKING then [''Emergency Vehicle Routing''] else [])
      else if device_type dev = ''camera'' then
        [''Video Surveillance Network''] @
        (if threatType = Some UNAUTHORIZED_ACCESS then [''Facial Recognition System''] else [])
      else if device_type dev = ''waterSensor'' then
        [''Water Quality Monitoring''] @
        (if threatType = Some DATA_MANIPULATION then [''Public Health Alert System''] else [])
      else []) @
     (if threatType = Some MALWARE \<or> threatType = Some RANSOMWARE
      then [''City Network Infrastructure''] else [])"

definition determinePotentialImpact :: "string \<Rightarrow> string \<Rightarrow> string" where
  "determinePotentialImpact severity deviceType =
     (if severity = SEVERITY_CRITICAL then
        (if deviceType = ''trafficLight'' then
           ''Potential for traffic accidents, gridlock, and public safety hazards''
         else if deviceType = ''camera'' then
           ''Complete surveillance blindspot, potential for undetected criminal activity''
         else if deviceType = ''waterSensor'' then
           ''Undetected water contamination, public health emergency risk''
         else ''Severe disruption to city services and potential safety hazards'')
      else if severity = SEVERITY_HIGH then
        (if deviceType = ''trafficLight'' then ''Traffic disruption and increased accident risk''
         else if deviceType = ''camera'' then ''Surveillance system compromise, security vulnerability''
         else if deviceType = ''waterSensor'' then
           ''Inaccurate water quality data, delayed contamination detection''
         else ''Significant disruption to affected systems'')
      else if severity = SEVERITY_MEDIUM then
        ''Moderate service disruption and potential for escalation if unaddressed''
      else ''Minor service disruption, minimal immediate impact'')"

definition generateRecommendedActions :: "string option \<Rightarrow> string \<Rightarrow> device \<Rightarrow> string list" where
  "generateRecommendedActions threatType severity dev =
     [''Isolate affected device from network'',
      ''Capture current device state for forensic analysis''] @
     (if threatType = Some UNAUTHORIZED_ACCESS then
        [''Reset all access credentials'', ''Review access logs for suspicious patterns''] @
        (if severity = SEVERITY_CRITICAL \<or> severity = SEVERITY_HIGH
         then [''Implement additional authentication measures''] else [])
      else if threatType = Some DATA_MANIPULATION then
        [''Restore data from last known good backup'',
         ''Verify data integrity across connected systems''] @
        (if severity = SEVERITY_CRITICAL
         then [''Manually verify sensor readings with physical inspection''] else [])
      else if threatType = Some FIRMWARE_TAMPERING then
        [''Reflash device with verified firmware'', ''Implement firmware signature verification'']
      else if threatType = Some MALWARE \<or> threatType = Some RANSOMWARE then
        [''Deploy anti-malware countermeasures'', ''Scan connected systems for infection spread''] @
        (if severity = SEVERITY_CRITICAL \<or> severity = SEVERITY_HIGH
         then [''Activate incident response team''] else [])
      else []) @
     (if severity = SEVERITY_CRITICAL
      then [''Notify city emergency response coordinator'',
            ''Prepare public communication if services are affected'']
      else []) @
     (if device_type dev = ''trafficLight'' \<and> (severity = SEVERITY_CRITICAL \<or> severity = SEVERITY_HIGH)
      then [''Switch to manual traffic control if necessary'']
      else if device_type dev = ''camera'' \<and> threatType = Some UNAUTHORIZED_ACCESS
      then [''Review recorded footage for evidence of tampering'']
      else [])"

text \<open>
  \<open>generateThreatAlert\<close> reads three properties of its second argument:
  \<open>const { threatType, severity, confidence } = threatData\<close>. An absent property reads as
  \<open>undefined\<close>, which is \<open>NaN\<close> where a number is computed from it.
\<close>

record threat_data =
  td_threatType :: "string option"
  td_severity :: string
  td_confidence :: "jsnum option"

definition num_of :: "jsnum option \<Rightarrow> jsnum" where
  "num_of c = (case c of None \<Rightarrow> NaN | Some n \<Rightarrow> n)"

text \<open>
  The description of an alert is a template literal that ends in
  \<open>(confidence * 100).toFixed(0)\<close> and a percent sign. The text before the number and the
  number handed to \<open>toFixed\<close> are kept apart.
\<close>

record alert_description =
  desc_text :: string
  desc_percent :: jsnum

record threat_alert =
  alert_id :: string
  alert_type :: "string option"
  a_deviceId :: string
  a_deviceName :: string
  a_deviceType :: string
  a_threatType :: "string option"
  a_severity :: string
  a_confidence :: "jsnum option"
  a_description :: alert_description
  a_timestamp :: timestamp
  a_status :: string
  a_recommendedActions :: "string list"
  a_affectedSystems :: "string list option"
  potentialImpact :: string
  riskScore :: jsnum
  mitigationStatus :: string
  assignedTo :: "string option"
  relatedAlerts :: "string list"

definition generateThreatAlert :: "rat \<Rightarrow> timestamp \<Rightarrow> device \<Rightarrow> threat_data \<Rightarrow> threat_alert" where
  \<comment> \<open>\<open>r\<close> is the value of \<open>Math.random()\<close> in the risk score\<close>
  "generateThreatAlert r now dev threatData =
     (let threatType = td_threatType threatData;
          severity = td_severity threatData;
          confidence = num_of (td_confidence threatData);
          incidentId = ''INC-'' @ toUpperCase (to_radix 36 (nat now) (nat now));
          head = ''Potential '' @ str_of threatType @ '' detected on '' @ device_name dev
                   @ '' ('' @ device_type dev @ '')'';
          band = (if jgt confidence (lit (8/10)) then '' with high confidence (''
                  else if jgt confidence (lit (6/10)) then '' with moderate confidence (''
                  else '' with low confidence ('');
          recommended = generateRecommendedActions threatType severity dev;
          base =
            (if severity = SEVERITY_CRITICAL then jadd (Num 90) (Math_floor (jmul (Num r) (Num 10)))
             else if severity = SEVERITY_HIGH then jadd (Num 70) (Math_floor (jmul (Num r) (Num 20)))
             else if severity = SEVERITY_MEDIUM then jadd (Num 40) (Math_floor (jmul (Num r) (Num 30)))
             else if severity = SEVERITY_LOW then jadd (Num 10) (Math_floor (jmul (Num r) (Num 30)))
             else jadd (Num 5) (Math_floor (jmul (Num r) (Num 15))));
          score = Math_min (Num 99) (jadd base (jmul confidence (Num 10)))
      in \<lparr> alert_id = incidentId, alert_type = None,
           a_deviceId = device_id dev, a_deviceName = device_name dev, a_deviceType = device_type dev,
           a_threatType = threatType, a_severity = severity, a_confidence = td_confidence threatData,
           a_description = \<lparr> desc_text = head @ band, desc_percent = jmul confidence (Num 100) \<rparr>,
           a_timestamp = now, a_status = THREAT_STATUS_NEW,
           a_recommendedActions = recommended,
           a_affectedSystems = Some (determineAffectedSystems dev threatType),
           potentialImpact = determinePotentialImpact severity (device_type dev),
           riskScore = score, mitigationStatus = ''pending'', assignedTo = None,
           relatedAlerts = [] \<rparr>)"

definition threat_data_of :: "classification \<Rightarrow> threat_data" where
  \<comment> \<open>the result of \<open>classifyThreat\<close> read by \<open>generateThreatAlert\<close>: it has a property
      \<open>type\<close> and none called \<open>threatType\<close>\<close>
  "threat_data_of c =
     \<lparr> td_threatType = None, td_severity = c_severity c, td_confidence = Some (c_confidence c) \<rparr>"

definition simulateAIDetection :: "rat \<Rightarrow> rat \<Rightarrow> timestamp \<Rightarrow> device \<Rightarrow> threat_alert option" where
  \<comment> \<open>\<open>r1\<close> is the random anomaly score, \<open>r2\<close> the random draw of the risk score\<close>
  "simulateAIDetection r1 r2 now dev =
     (let anomalyData = analyzeDeviceBehavior r1 now dev in
      if \<not> isAnomaly anomalyData then None
      else
        let ps = patterns anomalyData;
            (threatType, severity) =
              (if ''Unusual access pattern'' \<in> set ps then (UNAUTHORIZED_ACCESS, SEVERITY_HIGH)
               else if ''Signal timing manipulation'' \<in> set ps then (DATA_MANIPULATION, SEVERITY_CRITICAL)
               else if ''Reading fluctuation outside normal parameters'' \<in> set ps
                 then (DATA_MANIPULATION, SEVERITY_MEDIUM)
               else if ''Communication protocol violation'' \<in> set ps
                 then (COMMUNICATION_HIJACKING, SEVERITY_HIGH)
               else if ''Unexpected firmware behavior'' \<in> set ps
                 then (FIRMWARE_TAMPERING, SEVERITY_CRITICAL)
               else (UNAUTHORIZED_ACCESS, SEVERITY_MEDIUM));
            threatData = classifyThreat now threatType severity (Some anomalyData)
        in Some (generateThreatAlert r2 now dev (threat_data_of threatData)))"

section \<open>The enumerations of \<open>incidentResponse\<close>\<close>

abbreviation TIER1 :: string where "TIER1 \<equiv> ''Tier 1 - Initial Response''"
abbreviation TIER2 :: string where "TIER2 \<equiv> ''Tier 2 - Technical Response''"
abbreviation TIER3 :: string where "TIER3 \<equiv> ''Tier 3 - Advanced Response''"
abbreviation FORENSICS :: string where "FORENSICS \<equiv> ''Digital Forensics Team''"
abbreviation PHYSICAL :: string where "PHYSICAL \<equiv> ''Physical Security Team''"
abbreviation MANAGEMENT :: string where "MANAGEMENT \<equiv> ''Crisis Management Team''"

abbreviation IDENTIFICATION :: string where "IDENTIFICATION \<equiv> ''identification''"
abbreviation CONTAINMENT :: string where "CONTAINMENT \<equiv> ''containment''"
abbreviation ERADICATION :: string where "ERADICATION \<equiv> ''eradication''"
abbreviation RECOVERY :: string where "RECOVERY \<equiv> ''recovery''"
abbreviation LESSONS_LEARNED :: string where "LESSONS_LEARNED \<equiv> ''lessons_learned''"

definition RESPONSE_PHASES :: "(string \<times> string) list" where
  "RESPONSE_PHASES =
     [(''IDENTIFICATION'', IDENTIFICATION), (''CONTAINMENT'', CONTAINMENT),
      (''ERADICATION'', ERADICATION), (''RECOVERY'', RECOVERY),
      (''LESSONS_LEARNED'', LESSONS_LEARNED)]"

abbreviation PENDING :: string where "PENDING \<equiv> ''pending''"
abbreviation IN_PROGRESS :: string where "IN_PROGRESS \<equiv> ''in_progress''"
abbreviation COMPLETED :: string where "COMPLETED \<equiv> ''completed''"
abbreviation FAILED :: string where "FAILED \<equiv> ''failed''"

section \<open>Response teams\<close>

text \<open>
  Of the module \<open>incidentResponse\<close> the functions \<open>determineResponseTeams\<close>,
  \<open>addResponseNote\<close> and \<open>initiateDetailedResponse\<close>, and of \<open>threatDetection\<close> the function
  \<open>deployCountermeasures\<close>, are called by none of the functions below and are left out.
\<close>

record team_member =
  member_id :: string
  member_name :: string
  member_role :: "string option"
  expertise :: jsnum
  member_availability :: string

record member_draws =
  \<comment> \<open>the six random draws of one loop iteration, the random id as its text\<close>
  draw_first :: rat
  draw_last :: rat
  draw_role :: rat
  draw_member_id :: string
  draw_expertise :: rat
  draw_available :: rat

record team_draws =
  draw_team_id :: string
  draw_count :: rat
  draw_members :: "nat \<Rightarrow> member_draws"
  draw_time :: rat

record team =
  team_id :: string
  team_name :: string
  specialties :: "string option list"
  members :: "team_member list"
  availability :: string
  currentAssignments :: jsnum
  responseTime :: jsnum

definition random_index :: "rat \<Rightarrow> nat \<Rightarrow> jsnum" where
  \<comment> \<open>\<open>Math.floor(Math.random() * n)\<close>\<close>
  "random_index r n = Math_floor (jmul (Num r) (Num (of_nat n)))"

definition loop_count :: "jsnum \<Rightarrow> nat" where
  \<comment> \<open>how often \<open>for (let i = 0; i < count; i++)\<close> runs\<close>
  "loop_count c = (case c of NaN \<Rightarrow> 0 | Num q \<Rightarrow> nat \<lceil>q\<rceil>)"

definition generateTeamMembers :: "(nat \<Rightarrow> member_draws) \<Rightarrow> jsnum \<Rightarrow> team_member list" where
  "generateTeamMembers draws count =
     (let firstNames = [''Alex'', ''Jordan'', ''Taylor'', ''Morgan'', ''Casey'', ''Riley'', ''Avery'',
                        ''Quinn'', ''Skyler'', ''Dakota''];
          lastNames = [''Smith'', ''Johnson'', ''Williams'', ''Brown'', ''Jones'', ''Garcia'', ''Miller'',
                       ''Davis'', ''Rodriguez'', ''Martinez''];
          roles = [''Analyst'', ''Engineer'', ''Specialist'', ''Technician'', ''Coordinator'', ''Lead'']
      in map (\<lambda>i. let d = draws i;
                       firstName = nth_opt firstNames (random_index (draw_first d) (length firstNames));
                       lastName = nth_opt lastNames (random_index (draw_last d) (length lastNames));
                       role = nth_opt roles (random_index (draw_role d) (length roles))
                   in \<lparr> member_id = ''member-'' @ draw_member_id d,
                        member_name = str_of firstName @ '' '' @ str_of lastName,
                        member_role = role,
                        expertise = jadd (random_index (draw_expertise d) 5) (Num 1),
                        member_availability =
                          (if jgt (Num (draw_available d)) (lit (2/10)) then ''available'' else ''busy'') \<rparr>)
           [0 ..< loop_count count])"

definition createResponseTeam :: "team_draws \<Rightarrow> string \<Rightarrow> string option list \<Rightarrow> team" where
  "createResponseTeam draws name specs =
     \<lparr> team_id = ''team-'' @ draw_team_id draws,
       team_name = name,
       specialties = specs,
       members = generateTeamMembers (draw_members draws) (jadd (Num 3) (random_index (draw_count draws) 3)),
       availability = ''available'',
       currentAssignments = Num 0,
       responseTime = jadd (Num 5) (random_index (draw_time draws) 10) \<rparr>"

section \<open>Response plans\<close>

record phase_entry =
  estimatedDuration :: jsnum
  pe_startTime :: "timestamp option"
  pe_endTime :: "timestamp option"
  pe_status :: string

text \<open>
  The timeline is the object literal that \<open>createResponseTimeline\<close> returns: one entry
  under each of the five phase names, in this order.
\<close>

record response_timeline =
  identification :: phase_entry
  containment :: phase_entry
  eradication :: phase_entry
  recovery :: phase_entry
  lessons_learned :: phase_entry

definition tl_get :: "string \<Rightarrow> response_timeline \<Rightarrow> phase_entry option" where
  \<comment> \<open>\<open>timeline[key]\<close>; \<open>None\<close> is \<open>undefined\<close>\<close>
  "tl_get key t =
     (if key = IDENTIFICATION then Some (identification t)
      else if key = CONTAINMENT then Some (containment t)
      else if key = ERADICATION then Some (eradication t)
      else if key = RECOVERY then Some (recovery t)
      else if key = LESSONS_LEARNED then Some (lessons_learned t)
      else None)"

definition tl_set :: "string \<Rightarrow> phase_entry \<Rightarrow> response_timeline \<Rightarrow> response_timeline" where
  \<comment> \<open>the timeline after a write to the entry \<open>timeline[key]\<close>, for a key that has an entry\<close>
  "tl_set key e t =
     (if key = IDENTIFICATION then t\<lparr>identification := e\<rparr>
      else if key = CONTAINMENT then t\<lparr>containment := e\<rparr>
      else if key = ERADICATION then t\<lparr>eradication := e\<rparr>
      else if key = RECOVERY then t\<lparr>recovery := e\<rparr>
      else if key = LESSONS_LEARNED then t\<lparr>lessons_learned := e\<rparr>
      else t)"

definition Object_entries :: "response_timeline \<Rightarrow> (string \<times> phase_entry) list" where
  "Object_entries t =
     [(IDENTIFICATION, identification t), (CONTAINMENT, containment t), (ERADICATION, eradication t),
      (RECOVERY, recovery t), (LESSONS_LEARNED, lessons_learned t)]"

definition Object_values :: "response_timeline \<Rightarrow> phase_entry list" where
  "Object_values t = map snd (Object_entries t)"

definition severityMultiplier :: "string option \<Rightarrow> jsnum" where
  \<comment> \<open>\<open>severityMultiplier[severity]\<close> as a number: a missing key gives \<open>undefined\<close>, and
      every product with it is \<open>NaN\<close>\<close>
  "severityMultiplier severity =
     (if severity = Some SEVERITY_LOW then lit (7/10)
      else if severity = Some SEVERITY_MEDIUM then lit 1
      else if severity = Some SEVERITY_HIGH then lit (15/10)
      else if severity = Some SEVERITY_CRITICAL then lit 2
      else NaN)"

definition pending_phase :: "jsnum \<Rightarrow> phase_entry" where
  "pending_phase d = \<lparr> estimatedDuration = d, pe_startTime = None, pe_endTime = None, pe_status = PENDING \<rparr>"

definition createResponseTimeline :: "string option \<Rightarrow> string option \<Rightarrow> response_timeline" where
  \<comment> \<open>an argument that is not passed is \<open>None\<close>\<close>
  "createResponseTimeline threatType severity =
     (let multiplier = severityMultiplier severity;
          (identificationTime, eradicationTime, recoveryTime) =
            (if threatType = Some RANSOMWARE \<or> threatType = Some MALWARE then
               (Num 15, jmul (Num 45) (lit (15/10)), jmul (Num 30) (lit (15/10)))
             else if threatType = Some FIRMWARE_TAMPERING then
               (Num 15, jmul (Num 45) (lit (13/10)), jmul (Num 30) (lit (12/10)))
             else if threatType = Some DATA_MANIPULATION then
               (jmul (Num 15) (lit (12/10)), jmul (Num 45) (lit (11/10)), Num 30)
             else (Num 15, Num 45, Num 30))
      in \<lparr> identification = pending_phase (Math_round (jmul identificationTime multiplier)),
           containment = pending_phase (Math_round (jmul (Num 30) multiplier)),
           eradication = pending_phase (Math_round (jmul eradicationTime multiplier)),
           recovery = pending_phase (Math_round (jmul recoveryTime multiplier)),
           lessons_learned = pending_phase (Math_round (jmul (Num 60) multiplier)) \<rparr>)"

definition calculateEstimatedCompletionTime :: "response_timeline \<Rightarrow> jsnum" where
  "calculateEstimatedCompletionTime t =
     foldl (\<lambda>total ph. jadd total (estimatedDuration ph)) (Num 0) (Object_values t)"

text \<open>
  The content of a note is a text, or the template literal of a progress note with its two
  holes, the progress percentage and the current phase.
\<close>

datatype note_content = Text string | Progress jsnum "string option"

record response_note =
  n_timestamp :: "timestamp option"
  author :: string
  content :: note_content

record step =
  step_id :: string
  s_description :: string
  s_phase :: string
  assignedTeam :: string
  s_status :: string
  s_estimatedDuration :: jsnum
  s_startTime :: "timestamp option"
  s_endTime :: "timestamp option"
  s_notes :: "response_note list"

definition phaseMap :: "(string \<times> string) list" where
  "phaseMap =
     [(''Isolate affected device from network'', CONTAINMENT),
      (''Capture current device state for forensic analysis'', IDENTIFICATION),
      (''Reset all access credentials'', ERADICATION),
      (''Review access logs for suspicious patterns'', IDENTIFICATION),
      (''Implement additional authentication measures'', RECOVERY),
      (''Restore data from last known good backup'', RECOVERY),
      (''Verify data integrity across connected systems'', RECOVERY),
      (''Manually verify sensor readings with physical inspection'', IDENTIFICATION),
      (''Reflash device with verified firmware'', ERADICATION),
      (''Implement firmware signature verification'', RECOVERY),
      (''Deploy anti-malware countermeasures'', ERADICATION),
      (''Scan connected systems for infection spread'', CONTAINMENT),
      (''Activate incident response team'', IDENTIFICATION),
      (''Notify city emergency response coordinator'', IDENTIFICATION),
      (''Prepare public communication if services are affected'', CONTAINMENT),
      (''Switch to manual traffic control if necessary'', CONTAINMENT),
      (''Review recorded footage for evidence of tampering'', IDENTIFICATION)]"

definition teamMap :: "(string \<times> string) list" where
  "teamMap =
     [(''Isolate affected device from network'', TIER1),
      (''Capture current device state for forensic analysis'', FORENSICS),
      (''Reset all access credentials'', TIER2),
      (''Review access logs for suspicious patterns'', TIER2),
      (''Implement additional authentication measures'', TIER3),
      (''Restore data from last known good backup'', TIER2),
      (''Verify data integrity across connected systems'', TIER2),
      (''Manually verify sensor readings with physical inspection'', PHYSICAL),
      (''Reflash device with verified firmware'', TIER3),
      (''Implement firmware signature verification'', TIER3),
      (''Deploy anti-malware countermeasures'', TIER2),
      (''Scan connected systems for infection spread'', TIER2),
      (''Activate incident response team'', MANAGEMENT),
      (''Notify city emergency response coordinator'', MANAGEMENT),
      (''Prepare public communication if services are affected'', MANAGEMENT),
      (''Switch to manual traffic control if necessary'', PHYSICAL),
      (''Review recorded footage for evidence of tampering'', FORENSICS)]"

text \<open>
  \<open>generateResponseSteps(recommendedActions, timeline)\<close> is declared for a list of action
  strings and a timeline. Its two callers pass other values: \<open>createResponsePlan\<close> passes
  the threat alert and nothing else, \<open>initiateResponse\<close> passes the incident type and
  the severity, both strings. The argument types list the values the function is called
  with in this module.
\<close>

datatype actions_arg =
  ActionList "string list" | ActionString string | ActionAlert threat_alert

datatype timeline_arg =
  TimelineUndefined | TimelineString string | TimelineObject response_timeline

definition timeline_entry :: "timeline_arg \<Rightarrow> string \<Rightarrow> error + phase_entry" where
  \<comment> \<open>the object \<open>timeline[phase]\<close> whose \<open>estimatedDuration\<close> is read next, for \<open>phase\<close> one of
      the five phase names. Indexing \<open>undefined\<close> throws; a string has no property of such a
      name, and reading a property of that \<open>undefined\<close> throws.\<close>
  "timeline_entry t ph =
     (case t of
        TimelineUndefined \<Rightarrow> Inl TypeError
      | TimelineString s \<Rightarrow> Inl TypeError
      | TimelineObject obj \<Rightarrow> (case tl_get ph obj of None \<Rightarrow> Inl TypeError | Some e \<Rightarrow> Inr e))"

definition Object_prototype_keys :: "string list" where
  \<comment> \<open>the property names that an object literal inherits from \<open>Object.prototype\<close>\<close>
  "Object_prototype_keys =
     [''constructor'', ''__defineGetter__'', ''__defineSetter__'', ''hasOwnProperty'',
      ''__lookupGetter__'', ''__lookupSetter__'', ''isPrototypeOf'', ''propertyIsEnumerable'',
      ''toString'', ''valueOf'', ''__proto__'', ''toLocaleString'']"

definition action_step :: "timeline_arg \<Rightarrow> nat \<Rightarrow> string \<Rightarrow> error + step" where
  \<comment> \<open>the body of \<open>recommendedActions.forEach((action, index) => ...)\<close>. For an action that is
      an inherited property name, \<open>phaseMap[action]\<close> is a function or the prototype object:
      it is truthy, so it is the phase, and it names no entry of a timeline, a string or
      \<open>undefined\<close>; reading \<open>timeline[phase].estimatedDuration\<close> throws.\<close>
  "action_step t index action =
     (if action \<in> set Object_prototype_keys then Inl TypeError
      else
        let ph = (case map_of phaseMap action of Some x \<Rightarrow> x | None \<Rightarrow> CONTAINMENT);
            tm = (case map_of teamMap action of Some x \<Rightarrow> x | None \<Rightarrow> TIER1)
        in case timeline_entry t ph of
             Inl e \<Rightarrow> Inl e
           | Inr entry \<Rightarrow>
               Inr \<lparr> step_id = ''step-'' @ show_nat (index + 1), s_description = action, s_phase = ph,
                     assignedTeam = tm, s_status = PENDING,
                     s_estimatedDuration = Math_round (jdiv (estimatedDuration entry) (Num 3)),
                     s_startTime = None, s_endTime = None, s_notes = [] \<rparr>)"

fun action_steps :: "timeline_arg \<Rightarrow> nat \<Rightarrow> string list \<Rightarrow> error + step list" where
  "action_steps t index [] = Inr []"
| "action_steps t index (a # as) =
     (case action_step t index a of
        Inl e \<Rightarrow> Inl e
      | Inr s \<Rightarrow> (case action_steps t (index + 1) as of Inl e \<Rightarrow> Inl e | Inr ss \<Rightarrow> Inr (s # ss)))"

definition generateResponseSteps :: "actions_arg \<Rightarrow> timeline_arg \<Rightarrow> error + step list" where
  "generateResponseSteps recommendedActions t =
     (case recommendedActions of
        ActionString s \<Rightarrow> Inl TypeError  \<comment> \<open>a string has no \<open>forEach\<close>\<close>
      | ActionAlert a \<Rightarrow> Inl TypeError   \<comment> \<open>nor has an alert object\<close>
      | ActionList as \<Rightarrow>
          (case action_steps t 0 as of
             Inl e \<Rightarrow> Inl e
           | Inr ss \<Rightarrow>
               (case timeline_entry t LESSONS_LEARNED of
                  Inl e \<Rightarrow> Inl e
                | Inr entry \<Rightarrow>
                    Inr (ss @ [\<lparr> step_id = ''step-'' @ show_nat (length as + 1),
                                s_description = ''Document incident and update response procedures'',
                                s_phase = LESSONS_LEARNED, assignedTeam = MANAGEMENT,
                                s_status = PENDING, s_estimatedDuration = estimatedDuration entry,
                                s_startTime = None, s_endTime = None, s_notes = [] \<rparr>]))))"

text \<open>
  A plan's \<open>estimatedCompletionTime\<close> is a number of minutes in the object that
  \<open>initiateResponse\<close> builds and an ISO time string in the one that
  \<open>createResponsePlan\<close> builds. Where a number is computed from it the string counts
  as \<open>NaN\<close>.
\<close>

datatype est_time = Minutes jsnum | IsoTime timestamp

definition est_num :: "est_time \<Rightarrow> jsnum" where
  "est_num e = (case e of Minutes n \<Rightarrow> n | IsoTime t \<Rightarrow> NaN)"

record incomplete_report =
  ir_incidentId :: string
  ir_status :: string
  ir_message :: string
  completionPercentage :: jsnum

record full_report =
  fr_incidentId :: string
  fr_deviceId :: "string option"
  fr_deviceName :: "string option"
  fr_threatType :: "string option"
  fr_severity :: string
  fr_status :: string
  fr_startTime :: time_value
  completionTime :: time_value
  totalResponseTimeMinutes :: jsnum
  estimatedTimeMinutes :: est_time
  withinEstimatedTime :: bool
  timeVariance :: jsnum
  phaseDurations :: "(string \<times> jsnum) list"
  teamsInvolved :: "string list option"
  stepsCompleted :: nat
  totalSteps :: nat
  fr_notes :: "response_note list option"
  recommendations :: "string list"

datatype response_report = Incomplete incomplete_report | Completed full_report

definition report_incidentId :: "response_report \<Rightarrow> string" where
  "report_incidentId r = (case r of Incomplete i \<Rightarrow> ir_incidentId i | Completed f \<Rightarrow> fr_incidentId f)"

text \<open>
  A response plan has the properties of the two object literals that build one and the
  properties that the operations add or read later. A property that one literal leaves
  out, or that is \<open>null\<close>, is \<open>None\<close>, and \<open>Undefined\<close> or \<open>Null\<close> if it is a time:
  \<open>createResponsePlan\<close> stores the steps under \<open>steps\<close> and defines neither
  \<open>responseSteps\<close> nor \<open>notes\<close>.
\<close>

record plan =
  plan_id :: string
  incidentId :: string
  incidentType :: "string option"
  severity :: string
  affectedSystems :: "string list"
  responseTeam :: team
  status :: string
  phase :: string
  currentPhase :: "string option"
  timeline :: response_timeline
  responseSteps :: "step list option"
  steps :: "step list option"
  startTime :: time_value
  estimatedCompletionTime :: est_time
  actualCompletionTime :: time_value
  endTime :: time_value
  description :: "string option"
  "notes" :: "response_note list option"
  report :: "response_report option"
  deviceId :: "string option"
  deviceName :: "string option"
  threatType :: "string option"
  assignedTeams :: "string list option"

record incident_data =
  i_incidentId :: string
  i_incidentType :: string
  i_severity :: string
  i_affectedSystems :: "string list"
  i_responseTeam :: team
  i_startTime :: "timestamp option"
  i_description :: string

definition initiateResponse :: "string \<Rightarrow> timestamp \<Rightarrow> incident_data \<Rightarrow> error + plan" where
  \<comment> \<open>\<open>rid\<close> is the text of the random id\<close>
  "initiateResponse rid now incidentData =
     (let tline = createResponseTimeline (Some (i_incidentType incidentData)) (Some (i_severity incidentData))
      in case generateResponseSteps (ActionString (i_incidentType incidentData))
                                     (TimelineString (i_severity incidentData)) of
           Inl e \<Rightarrow> Inl e
         | Inr ss \<Rightarrow>
             Inr \<lparr> plan_id = ''response-'' @ rid,
                   incidentId = i_incidentId incidentData,
                   incidentType = Some (i_incidentType incidentData),
                   severity = i_severity incidentData,
                   affectedSystems = i_affectedSystems incidentData,
                   responseTeam = i_responseTeam incidentData,
                   status = IN_PROGRESS,
                   phase = IDENTIFICATION,
                   currentPhase = None,
                   timeline = tline,
                   responseSteps = Some ss,
                   steps = None,
                   startTime = IsoString (case i_startTime incidentData of Some t \<Rightarrow> t | None \<Rightarrow> now),
                   estimatedCompletionTime = Minutes (calculateEstimatedCompletionTime tline),
                   actualCompletionTime = Undefined,
                   endTime = Null,
                   description = Some (i_description incidentData),
                   notes = Some [],
                   report = None,
                   deviceId = None, deviceName = None, threatType = None, assignedTeams = None \<rparr>)"

definition system_note :: "timestamp \<Rightarrow> note_content \<Rightarrow> response_note" where
  "system_note now c = \<lparr> n_timestamp = Some now, author = ''System'', content = c \<rparr>"

definition startResponse :: "timestamp \<Rightarrow> plan \<Rightarrow> error + plan" where
  "startResponse now responsePlan =
     (let tline = timeline responsePlan;
          updatedPlan = responsePlan
            \<lparr> status := IN_PROGRESS, startTime := IsoString now,
              timeline := tline \<lparr> identification :=
                (identification tline) \<lparr> pe_status := IN_PROGRESS, pe_startTime := Some now \<rparr> \<rparr> \<rparr>
      in case responseSteps updatedPlan of
           None \<Rightarrow> Inl TypeError
         | Some ss \<Rightarrow>
             (case notes updatedPlan of
                None \<Rightarrow> Inl TypeError
              | Some ns \<Rightarrow>
                  Inr (updatedPlan
                    \<lparr> responseSteps := Some (map (\<lambda>st.
                        if s_phase st = IDENTIFICATION
                        then st \<lparr> s_status := IN_PROGRESS, s_startTime := Some now \<rparr> else st) ss),
                      notes := Some (ns @ [system_note now
                        (Text ''Incident response initiated. Identification phase started.'')]) \<rparr>)))"

definition phase_keys :: "string list" where
  \<comment> \<open>\<open>Object.keys(RESPONSE_PHASES)\<close>\<close>
  "phase_keys = map fst RESPONSE_PHASES"

definition currentPhaseIndex :: "jsnum \<Rightarrow> jsnum" where
  "currentPhaseIndex progressPercentage =
     (let n = Num (of_nat (length phase_keys));
          i = Math_floor (jmul (jdiv progressPercentage (Num 100)) n)
      in if jge i n then jsub n (Num 1) else i)"

definition phase_at :: "jsnum \<Rightarrow> string option" where
  \<comment> \<open>\<open>RESPONSE_PHASES[phases[i]]\<close>\<close>
  "phase_at i = (case nth_opt phase_keys i of None \<Rightarrow> None | Some k \<Rightarrow> map_of RESPONSE_PHASES k)"

definition stamp :: "timestamp \<Rightarrow> timestamp option \<Rightarrow> timestamp option" where
  \<comment> \<open>\<open>if (!x) x = now\<close>\<close>
  "stamp now t = (case t of None \<Rightarrow> Some now | Some x \<Rightarrow> Some x)"

definition mark_current :: "timestamp \<Rightarrow> phase_entry \<Rightarrow> phase_entry" where
  \<comment> \<open>the current phase below 100 percent\<close>
  "mark_current now e = e \<lparr> pe_status := IN_PROGRESS, pe_startTime := stamp now (pe_startTime e) \<rparr>"

definition mark_done :: "timestamp \<Rightarrow> phase_entry \<Rightarrow> phase_entry" where
  \<comment> \<open>an earlier phase, or the current one at 100 percent\<close>
  "mark_done now e =
     e \<lparr> pe_status := COMPLETED, pe_startTime := stamp now (pe_startTime e),
         pe_endTime := stamp now (pe_endTime e) \<rparr>"

definition advance_phase ::
  "timestamp \<Rightarrow> jsnum \<Rightarrow> jsnum \<Rightarrow> nat \<Rightarrow> response_timeline \<Rightarrow> error + response_timeline" where
  \<comment> \<open>the body of the loop over the phases up to the current one; writing to a property of
      an entry that the timeline does not have throws\<close>
  "advance_phase now progressPercentage idx i tline =
     (case phase_at (Num (of_nat i)) of
        None \<Rightarrow> Inl TypeError
      | Some ph \<Rightarrow>
          (case tl_get ph tline of
             None \<Rightarrow> Inl TypeError
           | Some e \<Rightarrow>
               Inr (tl_set ph
                 (if Num (of_nat i) = idx \<and> jlt progressPercentage (Num 100)
                  then mark_current now e else mark_done now e) tline)))"

fun advance_phases ::
  "timestamp \<Rightarrow> jsnum \<Rightarrow> jsnum \<Rightarrow> nat list \<Rightarrow> response_timeline \<Rightarrow> error + response_timeline" where
  "advance_phases now p idx [] tline = Inr tline"
| "advance_phases now p idx (i # is) tline =
     (case advance_phase now p idx i tline of
        Inl e \<Rightarrow> Inl e
      | Inr tline' \<Rightarrow> advance_phases now p idx is tline')"

definition loop_range :: "jsnum \<Rightarrow> nat list" where
  \<comment> \<open>the values of \<open>i\<close> in \<open>for (let i = 0; i <= idx; i++)\<close>\<close>
  "loop_range idx = (case idx of NaN \<Rightarrow> [] | Num q \<Rightarrow> [0 ..< nat (\<lfloor>q\<rfloor> + 1)])"

definition complete_step :: "timestamp \<Rightarrow> step \<Rightarrow> step" where
  "complete_step now st =
     st \<lparr> s_status := COMPLETED, s_startTime := stamp now (s_startTime st),
          s_endTime := stamp now (s_endTime st) \<rparr>"

definition progress_step :: "timestamp \<Rightarrow> jsnum \<Rightarrow> jsnum \<Rightarrow> step \<Rightarrow> step" where
  \<comment> \<open>the body of \<open>updatedPlan.responseSteps.forEach(step => ...)\<close>\<close>
  "progress_step now progressPercentage idx st =
     (let stepPhaseIndex = Num (of_int (indexOf phase_keys (toUpperCase (s_phase st)))) in
      if jlt stepPhaseIndex idx then complete_step now st
      else if stepPhaseIndex = idx then
        (if progressPercentage = Num 100 then complete_step now st
         else st \<lparr> s_status := IN_PROGRESS, s_startTime := stamp now (s_startTime st) \<rparr>)
      else st)"

definition simulateResponseProgress :: "timestamp \<Rightarrow> plan \<Rightarrow> jsnum \<Rightarrow> error + plan" where
  "simulateResponseProgress now responsePlan progressPercentage =
     (if \<not> truthy_time (startTime responsePlan) \<or> status responsePlan = COMPLETED then Inr responsePlan
      else
        let idx = currentPhaseIndex progressPercentage;
            updatedPlan = responsePlan \<lparr> currentPhase := phase_at idx \<rparr>
        in case advance_phases now progressPercentage idx (loop_range idx) (timeline updatedPlan) of
             Inl e \<Rightarrow> Inl e
           | Inr tline \<Rightarrow>
               (case responseSteps updatedPlan of
                  None \<Rightarrow> Inl TypeError
                | Some ss \<Rightarrow>
                    (case notes updatedPlan of
                       None \<Rightarrow> Inl TypeError
                     | Some ns \<Rightarrow>
                         let stepped = updatedPlan
                               \<lparr> timeline := tline,
                                 responseSteps := Some (map (progress_step now progressPercentage idx) ss) \<rparr>
                         in if jge progressPercentage (Num 100)
                            then Inr (stepped
                              \<lparr> status := COMPLETED, actualCompletionTime := IsoString now,
                                notes := Some (ns @ [system_note now (Text
                                  ''Incident response completed successfully. All phases finished.'')]) \<rparr>)
                            else Inr (stepped
                              \<lparr> notes := Some (ns @ [system_note now
                                  (Progress progressPercentage (phase_at idx))]) \<rparr>))))"

definition updateResponsePhase :: "timestamp \<Rightarrow> plan \<Rightarrow> string \<Rightarrow> string option \<Rightarrow> error + plan" where
  \<comment> \<open>the argument \<open>notes\<close> is \<open>None\<close> when it is not passed or \<open>null\<close>; an empty string is falsy\<close>
  "updateResponsePhase now response newPhase notes_arg =
     (let updatedResponse = response
            \<lparr> phase := newPhase,
              status := (if newPhase = LESSONS_LEARNED then COMPLETED else status response) \<rparr>
      in case notes updatedResponse of
           None \<Rightarrow> Inl TypeError
         | Some ns \<Rightarrow>
             Inr (updatedResponse
               \<lparr> notes := Some (ns @ [system_note now (Text (''Response phase updated to: '' @ newPhase))]
                   @ (case notes_arg of
                        None \<Rightarrow> []
                      | Some txt \<Rightarrow> if txt = [] then []
                          else [\<lparr> n_timestamp = Some now, author = ''Responder'', content = Text txt \<rparr>])) \<rparr>))"

definition completed_steps :: "step list \<Rightarrow> nat" where
  \<comment> \<open>\<open>steps.filter(step => step.status === COMPLETED).length\<close>\<close>
  "completed_steps ss = length (filter (\<lambda>st. s_status st = COMPLETED) ss)"

definition calculateCompletionPercentage :: "plan \<Rightarrow> error + jsnum" where
  "calculateCompletionPercentage responsePlan =
     (if status responsePlan = COMPLETED then Inr (Num 100)
      else if status responsePlan = PENDING then Inr (Num 0)
      else case responseSteps responsePlan of
             None \<Rightarrow> Inl TypeError
           | Some ss \<Rightarrow>
               Inr (Math_round (jmul (jdiv (Num (of_nat (completed_steps ss))) (Num (of_nat (length ss))))
                                     (Num 100))))"

definition minutes_between :: "time_value \<Rightarrow> time_value \<Rightarrow> jsnum" where
  \<comment> \<open>\<open>Math.round((new Date(b) - new Date(a)) / (1000 * 60))\<close>\<close>
  "minutes_between a b = Math_round (jdiv (jsub (ms_of b) (ms_of a)) (jmul (Num 1000) (Num 60)))"

definition generateRecommendations :: "plan \<Rightarrow> string list" where
  "generateRecommendations responsePlan =
     (if truthy_time (actualCompletionTime responsePlan)
         \<and> jgt (minutes_between (startTime responsePlan) (actualCompletionTime responsePlan))
                (est_num (estimatedCompletionTime responsePlan))
      then [''Response took longer than estimated. Consider reviewing team allocation and procedures.'']
      else []) @
     (if threatType responsePlan = Some UNAUTHORIZED_ACCESS then
        [''Implement stronger authentication mechanisms across similar devices.'',
         ''Review access control policies and procedures.'']
      else if threatType responsePlan = Some DATA_MANIPULATION then
        [''Implement data integrity verification mechanisms.'',
         ''Consider blockchain or cryptographic solutions for critical data.'']
      else if threatType responsePlan = Some FIRMWARE_TAMPERING then
        [''Implement secure boot and firmware signature verification.'',
         ''Establish regular firmware update and verification schedule.'']
      else if threatType responsePlan = Some MALWARE \<or> threatType responsePlan = Some RANSOMWARE then
        [''Enhance endpoint protection on all connected devices.'',
         ''Implement network segmentation to limit lateral movement.'']
      else [''Review security posture of similar devices in the network.'']) @
     [''Conduct training exercises for similar scenarios.'',
      ''Update incident response playbooks based on lessons learned.'']"

definition generateResponseReport :: "plan \<Rightarrow> error + response_report" where
  "generateResponseReport responsePlan =
     (if status responsePlan \<noteq> COMPLETED then
        (case calculateCompletionPercentage responsePlan of
           Inl e \<Rightarrow> Inl e
         | Inr pct \<Rightarrow>
             Inr (Incomplete
               \<lparr> ir_incidentId = incidentId responsePlan, ir_status = ''Incomplete'',
                 ir_message = ''Cannot generate report for incomplete response'',
                 completionPercentage = pct \<rparr>))
      else
        let total = minutes_between (startTime responsePlan) (actualCompletionTime responsePlan);
            durations = map (\<lambda>(ph, d).
                (ph, case (pe_startTime d, pe_endTime d) of
                       (Some s, Some e) \<Rightarrow> minutes_between (IsoString s) (IsoString e)
                     | _ \<Rightarrow> Num 0))
              (Object_entries (timeline responsePlan));
            est = estimatedCompletionTime responsePlan
        in case responseSteps responsePlan of
             None \<Rightarrow> Inl TypeError
           | Some ss \<Rightarrow>
               Inr (Completed
                 \<lparr> fr_incidentId = incidentId responsePlan,
                   fr_deviceId = deviceId responsePlan,
                   fr_deviceName = deviceName responsePlan,
                   fr_threatType = threatType responsePlan,
                   fr_severity = severity responsePlan,
                   fr_status = ''Completed'',
                   fr_startTime = startTime responsePlan,
                   completionTime = actualCompletionTime responsePlan,
                   totalResponseTimeMinutes = total,
                   estimatedTimeMinutes = est,
                   withinEstimatedTime = jle total (est_num est),
                   timeVariance = jsub (est_num est) total,
                   phaseDurations = durations,
                   teamsInvolved = assignedTeams responsePlan,
                   stepsCompleted = completed_steps ss,
                   totalSteps = length ss,
                   fr_notes = notes responsePlan,
                   recommendations = generateRecommendations responsePlan \<rparr>))"

definition createResponsePlan :: "team_draws \<Rightarrow> rat \<Rightarrow> timestamp \<Rightarrow> threat_alert \<Rightarrow> error + plan" where
  \<comment> \<open>\<open>r\<close> is the random draw in the id. The calls \<open>createResponseTimeline()\<close> and
      \<open>generateResponseSteps(threatAlert)\<close> are written with the arguments they have in the source.\<close>
  "createResponsePlan draws r now threatAlert =
     (let responseId = ''resp-'' @ show_nat (nat now) @ ''-''
            @ (case random_index r 1000 of NaN \<Rightarrow> ''NaN'' | Num q \<Rightarrow> show_nat (nat \<lfloor>q\<rfloor>));
          rteam = createResponseTeam draws
            (if alert_type threatAlert = Some ''network'' then ''Network Security''
             else if alert_type threatAlert = Some ''device'' then ''Endpoint Protection''
             else if alert_type threatAlert = Some ''data'' then ''Data Security''
             else if alert_type threatAlert = Some ''infrastructure'' then ''Infrastructure''
             else ''IoT Security'')
            [alert_type threatAlert];
          tline = createResponseTimeline None None
      in case generateResponseSteps (ActionAlert threatAlert) TimelineUndefined of
           Inl e \<Rightarrow> Inl e
         | Inr ss \<Rightarrow>
             Inr \<lparr> plan_id = responseId,
                   incidentId = alert_id threatAlert,
                   incidentType = alert_type threatAlert,
                   severity = a_severity threatAlert,
                   affectedSystems = (case a_affectedSystems threatAlert of None \<Rightarrow> [] | Some xs \<Rightarrow> xs),
                   responseTeam = rteam,
                   status = IN_PROGRESS,
                   phase = IDENTIFICATION,
                   currentPhase = None,
                   timeline = tline,
                   responseSteps = None,
                   steps = Some ss,
                   startTime = IsoString now,
                   estimatedCompletionTime = IsoTime (now + 3600000),
                   actualCompletionTime = Undefined,
                   endTime = Undefined,
                   description = None,
                   notes = None,
                   report = None,
                   deviceId = None, deviceName = None, threatType = None, assignedTeams = None \<rparr>)"

record simulation_result =
  sim_responsePlan :: plan
  sim_report :: "response_report option"
  sim_completionPercentage :: jsnum

definition simulateIncidentResponse ::
  "team_draws \<Rightarrow> rat \<Rightarrow> timestamp \<Rightarrow> timestamp \<Rightarrow> timestamp \<Rightarrow> threat_alert \<Rightarrow> jsnum
     \<Rightarrow> error + simulation_result" where
  \<comment> \<open>\<open>t0\<close>, \<open>t1\<close> and \<open>t2\<close> are the clock readings of the three calls\<close>
  "simulateIncidentResponse draws r t0 t1 t2 threatAlert progressPercentage =
     (case createResponsePlan draws r t0 threatAlert of
        Inl e \<Rightarrow> Inl e
      | Inr p0 \<Rightarrow>
          (case startResponse t1 p0 of
             Inl e \<Rightarrow> Inl e
           | Inr p1 \<Rightarrow>
               (case simulateResponseProgress t2 p1 progressPercentage of
                  Inl e \<Rightarrow> Inl e
                | Inr p2 \<Rightarrow>
                    (case (if jge progressPercentage (Num 100)
                           then map_sum id Some (generateResponseReport p2) else Inr None) of
                       Inl e \<Rightarrow> Inl e
                     | Inr rep \<Rightarrow>
                         (case calculateCompletionPercentage p2 of
                            Inl e \<Rightarrow> Inl e
                          | Inr pct \<Rightarrow>
                              Inr \<lparr> sim_responsePlan = p2, sim_report = rep,
                                    sim_completionPercentage = pct \<rparr>)))))"

section \<open>Sequences of operations\<close>

datatype operation =
  StartResponse timestamp
  | SimulateResponseProgress timestamp jsnum
  | UpdateResponsePhase timestamp string "string option"

fun apply_operation :: "operation \<Rightarrow> plan \<Rightarrow> error + plan" where
  "apply_operation (StartResponse now) p = startResponse now p"
| "apply_operation (SimulateResponseProgress now pct) p = simulateResponseProgress now p pct"
| "apply_operation (UpdateResponsePhase now newPhase txt) p = updateResponsePhase now p newPhase txt"

fun run_operations :: "operation list \<Rightarrow> plan \<Rightarrow> error + plan" where
  \<comment> \<open>each operation works on the plan that the one before returned; an exception ends the run\<close>
  "run_operations [] p = Inr p"
| "run_operations (x # xs) p =
     (case apply_operation x p of Inl e \<Rightarrow> Inl e | Inr p' \<Rightarrow> run_operations xs p')"

fun is_start :: "operation \<Rightarrow> bool" where
  "is_start (StartResponse now) = True"
| "is_start _ = False"

fun last_start :: "operation list \<Rightarrow> timestamp option" where
  \<comment> \<open>the clock reading of the last call of \<open>startResponse\<close> in the sequence\<close>
  "last_start [] = None"
| "last_start (x # xs) =
     (case last_start xs of
        Some t \<Rightarrow> Some t
      | None \<Rightarrow> (case x of StartResponse now \<Rightarrow> Some now | _ \<Rightarrow> None))"

text \<open>
  Each operation works on \<open>{...responsePlan}\<close>, a copy that shares the timeline, the step
  objects and the notes array with the plan passed; the status and the plan's own times are
  written to the copy. When a call throws, the caller is left with the plan passed, and
  the writes made to the shared objects before the exception are in it. The functions
  \<open>startResponse_thrown\<close> and \<open>simulateResponseProgress_thrown\<close> give the plan passed as
  such a call leaves it; \<open>updateResponsePhase\<close> writes to the copy only before it can throw.
\<close>

definition startResponse_thrown :: "timestamp \<Rightarrow> plan \<Rightarrow> plan" where
  \<comment> \<open>the timeline is written first; the steps are written if the plan has them, and then
      it is the missing notes array that throws\<close>
  "startResponse_thrown now responsePlan =
     (let tline = timeline responsePlan;
          written = responsePlan
            \<lparr> timeline := tline \<lparr> identification :=
                (identification tline) \<lparr> pe_status := IN_PROGRESS, pe_startTime := Some now \<rparr> \<rparr> \<rparr>
      in case responseSteps written of
           None \<Rightarrow> written
         | Some ss \<Rightarrow>
             written \<lparr> responseSteps := Some (map (\<lambda>st.
                 if s_phase st = IDENTIFICATION
                 then st \<lparr> s_status := IN_PROGRESS, s_startTime := Some now \<rparr> else st) ss) \<rparr>)"

fun advance_phases_written ::
  "timestamp \<Rightarrow> jsnum \<Rightarrow> jsnum \<Rightarrow> nat list \<Rightarrow> response_timeline \<Rightarrow> response_timeline" where
  \<comment> \<open>the timeline after the loop over the phases, or after the rounds that ran before one threw\<close>
  "advance_phases_written now p idx [] tline = tline"
| "advance_phases_written now p idx (i # is) tline =
     (case advance_phase now p idx i tline of
        Inl e \<Rightarrow> tline
      | Inr tline' \<Rightarrow> advance_phases_written now p idx is tline')"

definition simulateResponseProgress_thrown :: "timestamp \<Rightarrow> plan \<Rightarrow> jsnum \<Rightarrow> plan" where
  \<comment> \<open>for a call that passes the test at the top: the phases are written first, then the
      steps if the plan has them\<close>
  "simulateResponseProgress_thrown now responsePlan progressPercentage =
     (let idx = currentPhaseIndex progressPercentage;
          written = responsePlan
            \<lparr> timeline := advance_phases_written now progressPercentage idx (loop_range idx)
                            (timeline responsePlan) \<rparr>
      in case advance_phases now progressPercentage idx (loop_range idx) (timeline responsePlan) of
           Inl e \<Rightarrow> written
         | Inr tline \<Rightarrow>
             (case responseSteps written of
                None \<Rightarrow> written
              | Some ss \<Rightarrow>
                  written \<lparr> responseSteps := Some (map (progress_step now progressPercentage idx) ss) \<rparr>))"

fun after_operation :: "operation \<Rightarrow> plan \<Rightarrow> plan" where
  \<comment> \<open>the plan in the caller's hands after \<open>plan = operation(plan)\<close>: the plan returned, or
      the plan passed as the call that threw left it\<close>
  "after_operation (StartResponse now) p =
     (case startResponse now p of Inr p' \<Rightarrow> p' | Inl e \<Rightarrow> startResponse_thrown now p)"
| "after_operation (SimulateResponseProgress now pct) p =
     (case simulateResponseProgress now p pct of
        Inr p' \<Rightarrow> p' | Inl e \<Rightarrow> simulateResponseProgress_thrown now p pct)"
| "after_operation (UpdateResponsePhase now newPhase txt) p =
     (case updateResponsePhase now p newPhase txt of Inr p' \<Rightarrow> p' | Inl e \<Rightarrow> p)"

fun after_operations :: "operation list \<Rightarrow> plan \<Rightarrow> plan" where
  \<comment> \<open>a sequence of calls, each on the plan that the one before left in the caller's hands\<close>
  "after_operations [] p = p"
| "after_operations (x # xs) p = after_operations xs (after_operation x p)"

fun progress_run :: "(timestamp \<times> rat) list \<Rightarrow> plan \<Rightarrow> error + plan list" where
  \<comment> \<open>the plans returned by successive calls \<open>plan = simulateResponseProgress(plan, q)\<close>\<close>
  "progress_run [] p = Inr []"
| "progress_run ((now, q) # cs) p =
     (case simulateResponseProgress now p (Num q) of
        Inl e \<Rightarrow> Inl e
      | Inr p' \<Rightarrow> (case progress_run cs p' of Inl e \<Rightarrow> Inl e | Inr ps \<Rightarrow> Inr (p' # ps)))"

definition completed_phases :: "plan \<Rightarrow> string set" where
  "completed_phases p =
     set (map fst (filter (\<lambda>(k, e). pe_status e = COMPLETED) (Object_entries (timeline p))))"

definition all_completed :: "plan \<Rightarrow> bool" where
  "all_completed p \<longleftrightarrow>
     status p = COMPLETED
     \<and> list_all (\<lambda>e. pe_status e = COMPLETED) (Object_values (timeline p))
     \<and> (case responseSteps p of None \<Rightarrow> False | Some ss \<Rightarrow> list_all (\<lambda>st. s_status st = COMPLETED) ss)"

definition fresh_plan :: "plan \<Rightarrow> bool" where
  \<comment> \<open>a plan that has its steps and notes and whose phases are all pending, as
      \<open>createResponseTimeline\<close> leaves them\<close>
  "fresh_plan p \<longleftrightarrow>
     responseSteps p \<noteq> None \<and> notes p \<noteq> None
     \<and> list_all (\<lambda>e. pe_status e = PENDING) (Object_values (timeline p))"

definition phase_start :: "string \<Rightarrow> error + plan \<Rightarrow> timestamp option" where
  \<comment> \<open>the start time of a phase in the plan that an operation returned\<close>
  "phase_start k res =
     (case res of Inl e \<Rightarrow> None
      | Inr p \<Rightarrow> (case tl_get k (timeline p) of None \<Rightarrow> None | Some e \<Rightarrow> pe_startTime e))"

section \<open>Notions used in the statements about progress and time stamps\<close>

fun never_shrinks :: "plan \<Rightarrow> plan list \<Rightarrow> bool" where
  \<comment> \<open>from each plan of the sequence to the next, no phase leaves the completed ones\<close>
  "never_shrinks p [] = True"
| "never_shrinks p (p' # ps) = (completed_phases p \<subseteq> completed_phases p' \<and> never_shrinks p' ps)"

definition phase_number :: "rat \<Rightarrow> nat" where
  \<comment> \<open>the current phase index for a percentage between 0 and 100, as a natural number\<close>
  "phase_number q = nat (min 4 \<lfloor>fl (fl (q / 100) * 5)\<rfloor>)"

definition mark_at :: "timestamp \<Rightarrow> bool \<Rightarrow> nat \<Rightarrow> nat \<Rightarrow> phase_entry \<Rightarrow> phase_entry" where
  \<comment> \<open>what the loop up to the current phase \<open>k\<close> does to the entry of phase \<open>j\<close>\<close>
  "mark_at now below100 k j e =
     (if j < k then mark_done now e
      else if j = k then (if below100 then mark_current now e else mark_done now e)
      else e)"

definition progressed_to :: "nat \<Rightarrow> plan \<Rightarrow> bool" where
  \<comment> \<open>a started plan that is completed as a whole, or in which no phase from the
      \<open>k\<close>-th on is completed\<close>
  "progressed_to k p \<longleftrightarrow>
     truthy_time (startTime p) \<and> responseSteps p \<noteq> None \<and> notes p \<noteq> None
     \<and> (if status p = COMPLETED then all_completed p
        else COMPLETED \<notin> set (drop k (map pe_status (Object_values (timeline p)))))"

definition stamp_kept :: "timestamp option \<Rightarrow> timestamp option \<Rightarrow> bool" where
  \<comment> \<open>a time that was set is still the same time\<close>
  "stamp_kept a b = (case a of None \<Rightarrow> True | Some t \<Rightarrow> b = Some t)"

definition times_kept :: "bool \<Rightarrow> response_timeline \<Rightarrow> response_timeline \<Rightarrow> bool" where
  \<comment> \<open>every end time and every start time is kept; the start time of the identification
      phase is never cleared, and it is kept unless the plan was started again\<close>
  "times_kept restarted t t' \<longleftrightarrow>
     list_all2 (\<lambda>e e'. stamp_kept (pe_endTime e) (pe_endTime e')) (Object_values t) (Object_values t')
     \<and> list_all2 (\<lambda>e e'. stamp_kept (pe_startTime e) (pe_startTime e'))
          (tl (Object_values t)) (tl (Object_values t'))
     \<and> (pe_startTime (identification t) \<noteq> None \<longrightarrow> pe_startTime (identification t') \<noteq> None)
     \<and> (\<not> restarted \<longrightarrow>
          stamp_kept (pe_startTime (identification t)) (pe_startTime (identification t')))"

definition last_start_kept :: "operation list \<Rightarrow> response_timeline \<Rightarrow> bool" where
  \<comment> \<open>the start time of the identification phase is the time of the last call of
      \<open>startResponse\<close>, if there was one\<close>
  "last_start_kept ops t' =
     (case last_start ops of None \<Rightarrow> True | Some now \<Rightarrow> pe_startTime (identification t') = Some now)"


section \<open>The durations as the specification words them\<close>

text \<open>
  Base minutes per phase, a multiplier per threat type and phase applied first, then the
  severity multiplier, then rounding.
\<close>

definition spec_base_minutes :: "string \<Rightarrow> rat" where
  "spec_base_minutes ph =
     (if ph = IDENTIFICATION then 15 else if ph = CONTAINMENT then 30
      else if ph = ERADICATION then 45 else if ph = RECOVERY then 30 else 60)"

definition spec_type_multiplier :: "string option \<Rightarrow> string \<Rightarrow> rat option" where
  "spec_type_multiplier tt ph =
     (if tt = Some RANSOMWARE \<or> tt = Some MALWARE then
        (if ph = ERADICATION \<or> ph = RECOVERY then Some (15/10) else None)
      else if tt = Some FIRMWARE_TAMPERING then
        (if ph = ERADICATION then Some (13/10) else if ph = RECOVERY then Some (12/10) else None)
      else if tt = Some DATA_MANIPULATION then
        (if ph = IDENTIFICATION then Some (12/10) else if ph = ERADICATION then Some (11/10) else None)
      else None)"

definition spec_severity_multiplier :: "string \<Rightarrow> rat" where
  "spec_severity_multiplier sev =
     (if sev = SEVERITY_LOW then 7/10 else if sev = SEVERITY_MEDIUM then 1
      else if sev = SEVERITY_HIGH then 15/10 else 2)"

definition spec_duration :: "string option \<Rightarrow> string \<Rightarrow> string \<Rightarrow> jsnum" where
  "spec_duration tt sev ph =
     Math_round (jmul
       (case spec_type_multiplier tt ph of
          None \<Rightarrow> Num (spec_base_minutes ph)
        | Some m \<Rightarrow> jmul (Num (spec_base_minutes ph)) (lit m))
       (lit (spec_severity_multiplier sev)))"

definition timeline_durations :: "response_timeline \<Rightarrow> (string \<times> jsnum) list" where
  "timeline_durations t = map (\<lambda>(k, e). (k, estimatedDuration e)) (Object_entries t)"

section \<open>Example values\<close>

definition example_device :: device where
  "example_device = \<lparr> device_id = ''cam-1'', device_name = ''Main Street Camera'', device_type = ''camera'' \<rparr>"

definition example_behavior :: "jsnum \<Rightarrow> behavior" where
  "example_behavior sc =
     \<lparr> b_deviceId = ''cam-1'', anomalyScore = Some sc, patterns = [], b_timestamp = 0, isAnomaly = False \<rparr>"

definition example_alert :: threat_alert where
  \<comment> \<open>the object \<open>{id: 'INC-1', type: 'network', severity: 'high', ...}\<close>\<close>
  "example_alert =
     \<lparr> alert_id = ''INC-1'', alert_type = Some ''network'', a_deviceId = ''cam-1'',
       a_deviceName = ''Main Street Camera'', a_deviceType = ''camera'',
       a_threatType = Some RANSOMWARE, a_severity = SEVERITY_HIGH, a_confidence = Some (Num (3/4)),
       a_description = \<lparr> desc_text = ''Potential Ransomware detected'', desc_percent = Num 75 \<rparr>,
       a_timestamp = 0, a_status = THREAT_STATUS_NEW,
       a_recommendedActions = [''Isolate affected device from network''],
       a_affectedSystems = Some [''Video Surveillance Network''],
       potentialImpact = ''Surveillance system compromise, security vulnerability'',
       riskScore = Num 80, mitigationStatus = ''pending'', assignedTo = None, relatedAlerts = [] \<rparr>"

definition example_threat_data :: threat_data where
  "example_threat_data =
     \<lparr> td_threatType = Some RANSOMWARE, td_severity = SEVERITY_HIGH, td_confidence = Some (Num (3/4)) \<rparr>"

definition example_team :: team where
  "example_team =
     \<lparr> team_id = ''team-abc1234'', team_name = ''Network Security'', specialties = [Some ''network''],
       members = [], availability = ''available'', currentAssignments = Num 0, responseTime = Num 7 \<rparr>"

definition example_incident :: incident_data where
  "example_incident =
     \<lparr> i_incidentId = ''INC-1'', i_incidentType = RANSOMWARE, i_severity = SEVERITY_HIGH,
       i_affectedSystems = [''Unknown''], i_responseTeam = example_team, i_startTime = Some 0,
       i_description = ''Ransomware on the camera network'' \<rparr>"

definition example_step :: "string \<Rightarrow> string \<Rightarrow> string \<Rightarrow> step" where
  "example_step sid ph st =
     \<lparr> step_id = sid, s_description = ''Isolate affected device from network'', s_phase = ph,
       assignedTeam = TIER1, s_status = st, s_estimatedDuration = Num 10,
       s_startTime = None, s_endTime = None, s_notes = [] \<rparr>"

definition example_plan :: plan where
  \<comment> \<open>a plan as the data model describes it, before it is started\<close>
  "example_plan =
     \<lparr> plan_id = ''response-1'', incidentId = ''INC-1'', incidentType = Some RANSOMWARE,
       severity = SEVERITY_HIGH, affectedSystems = [''Unknown''], responseTeam = example_team,
       status = PENDING, phase = IDENTIFICATION, currentPhase = None,
       timeline = \<lparr> identification = pending_phase (Num 15), containment = pending_phase (Num 30),
                    eradication = pending_phase (Num 45), recovery = pending_phase (Num 30),
                    lessons_learned = pending_phase (Num 60) \<rparr>,
       responseSteps = Some [example_step ''step-1'' IDENTIFICATION PENDING,
                             example_step ''step-2'' CONTAINMENT PENDING,
                             example_step ''step-3'' LESSONS_LEARNED PENDING],
       steps = None, startTime = Null, estimatedCompletionTime = Minutes (Num 180),
       actualCompletionTime = Undefined, endTime = Null, description = None, notes = Some [],
       report = None, deviceId = None, deviceName = None, threatType = None, assignedTeams = None \<rparr>"

definition example_started_plan :: plan where
  \<comment> \<open>the example plan in its second phase: identification ran from time 1 to time 2,
      when containment began\<close>
  "example_started_plan =
     example_plan
       \<lparr> status := IN_PROGRESS, currentPhase := Some CONTAINMENT, startTime := IsoString 1,
         timeline := (timeline example_plan)
           \<lparr> identification := \<lparr> estimatedDuration = Num 15, pe_startTime = Some 1,
                                 pe_endTime = Some 2, pe_status = COMPLETED \<rparr>,
             containment := \<lparr> estimatedDuration = Num 30, pe_startTime = Some 2,
                              pe_endTime = None, pe_status = IN_PROGRESS \<rparr> \<rparr> \<rparr>"

section \<open>Rounding to a double is monotone\<close>

lemma rne_cases: "rne x = \<lfloor>x\<rfloor> \<or> rne x = \<lfloor>x\<rfloor> + 1"
  by (simp add: rne_def Let_def)

lemma rne_of_int: "rne (of_int n) = n"
  by (simp add: rne_def Let_def)

lemma rne_mono: "x \<le> y \<Longrightarrow> rne x \<le> rne y"
proof -
  assume xy: "x \<le> y"
  have fxy: "\<lfloor>x\<rfloor> \<le> \<lfloor>y\<rfloor>" using xy by (rule floor_mono)
  show ?thesis
  proof (cases "\<lfloor>x\<rfloor> = \<lfloor>y\<rfloor>")
    case True
    then have "x - of_int \<lfloor>x\<rfloor> \<le> y - of_int \<lfloor>y\<rfloor>" using xy by simp
    with True show ?thesis by (auto simp add: rne_def Let_def)
  next
    case False
    with fxy have "\<lfloor>x\<rfloor> + 1 \<le> \<lfloor>y\<rfloor>" by simp
    moreover have "rne x \<le> \<lfloor>x\<rfloor> + 1" using rne_cases [of x] by auto
    moreover have "\<lfloor>y\<rfloor> \<le> rne y" using rne_cases [of y] by auto
    ultimately show ?thesis by linarith
  qed
qed

lemma floorlog2_bounds_rat:
  assumes "0 < n"
  shows "0 < floorlog 2 n" and "(2::rat) ^ (floorlog 2 n - 1) \<le> of_nat n"
    and "rat_of_nat n + 1 \<le> 2 ^ floorlog 2 n"
proof -
  show "0 < floorlog 2 n" using assms floorlog_eq_zero_iff [of 2 n] by simp
  have "(2::nat) ^ (floorlog 2 n - 1) \<le> n" using floorlog_bounds [of n 2] assms by simp
  then show "(2::rat) ^ (floorlog 2 n - 1) \<le> of_nat n"
    by (metis of_nat_le_iff of_nat_numeral of_nat_power)
  have "n < (2::nat) ^ floorlog 2 n" using floorlog_bounds [of n 2] assms by simp
  then have "n + 1 \<le> (2::nat) ^ floorlog 2 n" by simp
  then have "rat_of_nat (n + 1) \<le> of_nat ((2::nat) ^ floorlog 2 n)"
    by (simp only: of_nat_le_iff)
  then show "rat_of_nat n + 1 \<le> 2 ^ floorlog 2 n" by simp
qed

lemma expo_bounds:
  assumes "0 < x"
  shows "2 powi (expo x) \<le> x" and "x < 2 powi (expo x + 1)"
proof -
  have "2 powi (expo x) \<le> x \<and> x < 2 powi (expo x + 1)"
  proof (cases "1 \<le> x")
    case True
    define n where "n = nat \<lfloor>x\<rfloor>"
    define k where "k = floorlog 2 n"
    have n1: "0 < n" using True by (simp add: n_def)
    have k0: "0 < k" and lo: "(2::rat) ^ (k - 1) \<le> of_nat n" and hi: "rat_of_nat n + 1 \<le> 2 ^ k"
      using floorlog2_bounds_rat [OF n1] by (simp_all add: k_def)
    have nx: "of_nat n \<le> x" using True by (simp add: n_def)
    have xn: "x < of_nat n + 1" using True by (simp add: n_def) linarith
    have e: "expo x = int k - 1" using True by (simp add: expo_def n_def k_def)
    have p1: "(2::rat) powi (int k - 1) = 2 ^ (k - 1)"
      using k0 by (simp add: power_int_def nat_diff_distrib)
    have p2: "(2::rat) powi (int k - 1 + 1) = 2 ^ k" by (simp add: power_int_def)
    show ?thesis unfolding e p1 p2 using lo hi nx xn by linarith
  next
    case False
    define y where "y = 1 / x"
    define m where "m = nat (\<lceil>y\<rceil> - 1)"
    define k where "k = floorlog 2 m"
    have y1: "1 < y" using False assms by (simp add: y_def)
    then have c2: "2 \<le> \<lceil>y\<rceil>" by (simp add: le_ceiling_iff)
    then have m1: "0 < m" by (simp add: m_def)
    have k0: "0 < k" and lo: "(2::rat) ^ (k - 1) \<le> of_nat m" and hi: "rat_of_nat m + 1 \<le> 2 ^ k"
      using floorlog2_bounds_rat [OF m1] by (simp_all add: k_def)
    have my: "of_nat m < y" using c2 by (simp add: m_def) linarith
    have ym: "y \<le> of_nat m + 1" using c2 by (simp add: m_def)
    have e: "expo x = - int k" using False by (simp add: expo_def m_def k_def y_def)
    have a: "(2::rat) ^ (k - 1) < y" using lo my by linarith
    have b: "y \<le> 2 ^ k" using ym hi by linarith
    have x_eq: "x = 1 / y" by (simp add: y_def)
    have "1 / (2::rat) ^ k \<le> x" unfolding x_eq using b y1
      by (simp add: frac_le)
    moreover have "x < 1 / (2::rat) ^ (k - 1)" unfolding x_eq using a
      by (simp add: frac_less2)
    moreover have "(2::rat) powi (- int k) = 1 / 2 ^ k"
      by (simp add: power_int_def field_simps)
    moreover have "(2::rat) powi (- int k + 1) = 1 / 2 ^ (k - 1)"
      using k0 by (cases k) (simp_all add: power_int_def field_simps nat_add_distrib)
    ultimately show ?thesis unfolding e by simp
  qed
  then show "2 powi (expo x) \<le> x" and "x < 2 powi (expo x + 1)" by simp_all
qed

lemma fl_pos: "0 < x \<Longrightarrow> fl x = of_int (rne (x * 2 powi (52 - expo x))) * 2 powi (expo x - 52)"
  by (simp add: fl_def Let_def)

lemma fl_neg: "fl (- x) = - fl x"
  by (simp add: fl_def Let_def)

lemma two_powi_add: "(2::rat) powi a * 2 powi b = 2 powi (a + b)"
  by (simp add: power_int_add)

lemma two_powi_pos: "0 < (2::rat) powi a"
  by simp

lemma scale_mono: "a \<le> b \<Longrightarrow> a * (2::rat) powi k \<le> b * 2 powi k"
  by (rule mult_right_mono) simp_all

lemma fl_pos_bounds:
  assumes "0 < x"
  shows "2 powi (expo x) \<le> fl x" and "fl x \<le> 2 powi (expo x + 1)"
proof -
  define e where "e = expo x"
  define y where "y = x * 2 powi (52 - e)"
  have lo: "2 powi e \<le> x" and hi: "x < 2 powi (e + 1)"
    using expo_bounds [OF assms] by (simp_all add: e_def)
  have "2 powi e * 2 powi (52 - e) \<le> y" unfolding y_def
    using lo by (rule scale_mono)
  then have y_lo: "of_int (2 ^ 52) \<le> y" by (simp add: two_powi_add)
  have "y \<le> 2 powi (e + 1) * 2 powi (52 - e)" unfolding y_def
    using hi by (intro scale_mono) simp
  then have y_hi: "y \<le> of_int (2 ^ 53)" by (simp add: two_powi_add)
  have n_lo: "2 ^ 52 \<le> rne y" using rne_mono [OF y_lo] by (simp only: rne_of_int)
  have n_hi: "rne y \<le> 2 ^ 53" using rne_mono [OF y_hi] by (simp only: rne_of_int)
  have f: "fl x = of_int (rne y) * 2 powi (e - 52)"
    using assms by (simp add: fl_pos y_def e_def)
  have a1: "rat_of_int (2 ^ 52) * 2 powi (e - 52) \<le> of_int (rne y) * 2 powi (e - 52)"
    using n_lo by (intro scale_mono) (simp only: of_int_le_iff)
  have b1: "rat_of_int (2 ^ 52) * 2 powi (e - 52) = 2 powi e"
    using two_powi_add [of 52 "e - 52"] by simp
  have "2 powi e \<le> fl x" using a1 unfolding b1 f .
  then show "2 powi (expo x) \<le> fl x" by (simp only: e_def)
  have a2: "of_int (rne y) * 2 powi (e - 52) \<le> rat_of_int (2 ^ 53) * 2 powi (e - 52)"
    using n_hi by (intro scale_mono) (simp only: of_int_le_iff)
  have b2: "rat_of_int (2 ^ 53) * 2 powi (e - 52) = 2 powi (e + 1)"
    using two_powi_add [of 53 "e - 52"] by (simp add: add.commute)
  have "fl x \<le> 2 powi (e + 1)" using a2 unfolding b2 f .
  then show "fl x \<le> 2 powi (expo x + 1)" by (simp only: e_def)
qed

lemma expo_mono:
  assumes "0 < x" "x \<le> y"
  shows "expo x \<le> expo y"
proof (rule ccontr)
  assume "\<not> expo x \<le> expo y"
  then have "expo y + 1 \<le> expo x" by simp
  then have "(2::rat) powi (expo y + 1) \<le> 2 powi (expo x)"
    by (rule power_int_increasing) simp
  moreover have "2 powi (expo x) \<le> x" using expo_bounds(1) [OF assms(1)] .
  moreover have "y < 2 powi (expo y + 1)" using expo_bounds(2) [of y] assms by simp
  ultimately show False using assms(2) by linarith
qed

lemma fl_mono_pos:
  assumes "0 < x" "x \<le> y"
  shows "fl x \<le> fl y"
proof (cases "expo x = expo y")
  case True
  have y0: "0 < y" using assms by simp
  have "x * 2 powi (52 - expo y) \<le> y * 2 powi (52 - expo y)"
    using assms(2) by (rule scale_mono)
  then have "rne (x * 2 powi (52 - expo y)) \<le> rne (y * 2 powi (52 - expo y))"
    by (rule rne_mono)
  then have "rat_of_int (rne (x * 2 powi (52 - expo y))) * 2 powi (expo y - 52)
      \<le> of_int (rne (y * 2 powi (52 - expo y))) * 2 powi (expo y - 52)"
    by (intro scale_mono) (simp only: of_int_le_iff)
  then show ?thesis using assms y0 True by (simp add: fl_pos)
next
  case False
  have y0: "0 < y" using assms by simp
  have "expo x + 1 \<le> expo y" using expo_mono [OF assms] False by simp
  then have "(2::rat) powi (expo x + 1) \<le> 2 powi (expo y)"
    by (rule power_int_increasing) simp
  then show ?thesis
    using fl_pos_bounds(2) [OF assms(1)] fl_pos_bounds(1) [OF y0] by linarith
qed

lemma fl_zero: "fl 0 = 0"
  by (simp add: fl_def)

lemma fl_nonneg: "0 \<le> x \<Longrightarrow> 0 \<le> fl x"
proof (cases "x = 0")
  case True
  then show ?thesis by (simp add: fl_zero)
next
  case False
  assume "0 \<le> x"
  with False have x0: "0 < x" by simp
  have "0 < (2::rat) powi (expo x)" by (rule two_powi_pos)
  then show ?thesis using fl_pos_bounds(1) [OF x0] by linarith
qed

lemma fl_mono: "x \<le> y \<Longrightarrow> fl x \<le> fl y"
proof -
  assume xy: "x \<le> y"
  consider "0 < x" | "x \<le> 0" "0 \<le> y" | "y < 0" by linarith
  then show ?thesis
  proof cases
    case 1
    then show ?thesis using xy by (rule fl_mono_pos)
  next
    case 2
    have "0 \<le> fl (- x)" using 2(1) by (intro fl_nonneg) simp
    then have "fl x \<le> 0" using fl_neg [of x] by simp
    moreover have "0 \<le> fl y" using 2(2) by (rule fl_nonneg)
    ultimately show ?thesis by linarith
  next
    case 3
    have "fl (- y) \<le> fl (- x)" using 3 xy by (intro fl_mono_pos) simp_all
    then show ?thesis by (simp add: fl_neg)
  qed
qed

section \<open>Evaluating the rounding\<close>

text \<open>
  The exponent of a number is determined by the two powers of two around it, so that a
  product or a literal is rounded by naming its exponent. Integers below \<open>2^53\<close> are
  doubles.
\<close>

lemma expo_unique:
  assumes "0 < x" "2 powi e \<le> x" "x < 2 powi (e + 1)"
  shows "expo x = e"
proof -
  have a: "2 powi (expo x) \<le> x" and b: "x < 2 powi (expo x + 1)"
    using expo_bounds [OF assms(1)] by simp_all
  have "\<not> e + 1 \<le> expo x"
  proof
    assume "e + 1 \<le> expo x"
    then have "(2::rat) powi (e + 1) \<le> 2 powi (expo x)" by (rule power_int_increasing) simp
    with a assms(3) show False by linarith
  qed
  moreover have "\<not> expo x + 1 \<le> e"
  proof
    assume "expo x + 1 \<le> e"
    then have "(2::rat) powi (expo x + 1) \<le> 2 powi e" by (rule power_int_increasing) simp
    with b assms(2) show False by linarith
  qed
  ultimately show ?thesis by linarith
qed

lemma fl_eval:
  assumes "0 < x" "2 powi e \<le> x" "x < 2 powi (e + 1)"
  shows "fl x = of_int (rne (x * 2 powi (52 - e))) * 2 powi (e - 52)"
  using assms by (simp add: fl_pos expo_unique [OF assms])

lemma floor_rat_numeral: "\<lfloor>(numeral a :: rat) / numeral b\<rfloor> = numeral a div numeral b"
  using floor_divide_of_int_eq [of "numeral a" "numeral b", where ?'a = rat] by simp

lemmas fl_calc = rne_def Let_def power_int_minus floor_rat_numeral

lemma fl_of_int:
  assumes "\<bar>n\<bar> < 2 ^ 53"
  shows "fl (of_int n) = of_int n"
proof -
  have pos: "fl (of_int m) = of_int m" if m: "0 < m" "m < 2 ^ 53" for m :: int
  proof -
    define x where "x = rat_of_int m"
    define e where "e = expo x"
    have x0: "0 < x" using m by (simp add: x_def)
    have "rat_of_int m < of_int (2 ^ 53)" using m(2) by (simp only: of_int_less_iff)
    then have "x < 2 powi 53" by (simp add: x_def)
    moreover have "2 powi e \<le> x" using expo_bounds(1) [OF x0] by (simp add: e_def)
    ultimately have "(2::rat) powi e < 2 powi 53" by linarith
    then have "\<not> 53 \<le> e" using power_int_increasing [of 53 e "2::rat"] by auto
    then have e52: "0 \<le> 52 - e" by simp
    have "(2::rat) powi (52 - e) = of_int (2 ^ nat (52 - e))"
      using e52 by (simp add: power_int_def)
    then have "x * 2 powi (52 - e) = of_int (m * 2 ^ nat (52 - e))" by (simp add: x_def)
    then have "rne (x * 2 powi (52 - e)) = m * 2 ^ nat (52 - e)" by (simp only: rne_of_int)
    then have "fl x = of_int (m * 2 ^ nat (52 - e)) * 2 powi (e - 52)"
      using x0 by (simp add: fl_pos e_def)
    also have "\<dots> = x * (2 powi (52 - e) * 2 powi (e - 52))"
      using e52 by (simp add: x_def power_int_def)
    also have "\<dots> = x" by (simp add: two_powi_add)
    finally show ?thesis by (simp add: x_def)
  qed
  consider "0 < n" | "n = 0" | "n < 0" by linarith
  then show ?thesis
  proof cases
    case 1
    then show ?thesis using pos [of n] assms by simp
  next
    case 2
    then show ?thesis by (simp add: fl_zero)
  next
    case 3
    then have "fl (of_int (- n)) = of_int (- n)" using pos [of "- n"] assms by simp
    then show ?thesis using fl_neg [of "of_int n"] by simp
  qed
qed

lemma fl_numeral: "(numeral k :: int) < 2 ^ 53 \<Longrightarrow> fl (numeral k) = numeral k"
  using fl_of_int [of "numeral k"] by simp

lemma fl_one: "fl 1 = 1"
  using fl_of_int [of 1] by simp

text \<open>The literals and products that occur below, each rounded to its double.\<close>

lemma fl_value_1: "fl (2 / 5) = 3602879701896397 / 9007199254740992"
  by (subst fl_eval [of _ "- 2"]) (simp_all add: fl_calc)

lemma fl_value_2: "fl (1 / 2) = 1 / 2"
  by (subst fl_eval [of _ "- 1"]) (simp_all add: fl_calc)

lemma fl_value_3: "fl (7 / 10) = 3152519739159347 / 4503599627370496"
  by (subst fl_eval [of _ "- 1"]) (simp_all add: fl_calc)

lemma fl_value_4: "fl (11 / 10) = 2476979795053773 / 2251799813685248"
  by (subst fl_eval [of _ "0"]) (simp_all add: fl_calc)

lemma fl_value_5: "fl (6 / 5) = 5404319552844595 / 4503599627370496"
  by (subst fl_eval [of _ "0"]) (simp_all add: fl_calc)

lemma fl_value_6: "fl (13 / 10) = 5854679515581645 / 4503599627370496"
  by (subst fl_eval [of _ "0"]) (simp_all add: fl_calc)

lemma fl_value_7: "fl (3 / 2) = 3 / 2"
  by (subst fl_eval [of _ "0"]) (simp_all add: fl_calc)

lemma fl_value_8: "fl (47287796087390205 / 4503599627370496) = 21 / 2"
  by (subst fl_eval [of _ "3"]) (simp_all add: fl_calc)

lemma fl_value_9: "fl (28372677652434123 / 2251799813685248) = 7093169413108531 / 562949953421312"
  by (subst fl_eval [of _ "3"]) (simp_all add: fl_calc)

lemma fl_value_10: "fl (81064793292668925 / 4503599627370496) = 18"
  by (subst fl_eval [of _ "4"]) (simp_all add: fl_calc)

lemma fl_value_11: "fl (47287796087390205 / 2251799813685248) = 21"
  by (subst fl_eval [of _ "4"]) (simp_all add: fl_calc)

lemma fl_value_12: "fl (45 / 2) = 45 / 2"
  by (subst fl_eval [of _ "4"]) (simp_all add: fl_calc)

lemma fl_value_13: "fl (28372677652434123 / 1125899906842624) = 7093169413108531 / 281474976710656"
  by (subst fl_eval [of _ "4"]) (simp_all add: fl_calc)

lemma fl_value_14: "fl (141863388262170615 / 4503599627370496) = 8866461766385663 / 281474976710656"
  by (subst fl_eval [of _ "4"]) (simp_all add: fl_calc)

lemma fl_value_15: "fl (21962046648954076140148987474739 / 633825300114114700748351602688) = 1219138492878029 / 35184372088832"
  by (subst fl_eval [of _ "5"]) (simp_all add: fl_calc)

lemma fl_value_16: "fl (81064793292668925 / 2251799813685248) = 36"
  by (subst fl_eval [of _ "5"]) (simp_all add: fl_calc)

lemma fl_value_17: "fl (368844809481643599 / 9007199254740992) = 5763200148150681 / 140737488355328"
  by (subst fl_eval [of _ "5"]) (simp_all add: fl_calc)

lemma fl_value_18: "fl (47287796087390205 / 1125899906842624) = 42"
  by (subst fl_eval [of _ "5"]) (simp_all add: fl_calc)

lemma fl_value_19: "fl (425590164786511845 / 9007199254740992) = 189 / 4"
  by (subst fl_eval [of _ "5"]) (simp_all add: fl_calc)

lemma fl_value_20: "fl (111464090777419785 / 2251799813685248) = 6966505673588737 / 140737488355328"
  by (subst fl_eval [of _ "5"]) (simp_all add: fl_calc)

lemma fl_value_21: "fl (6966505673588737 / 140737488355328) = 6966505673588737 / 140737488355328"
  by (subst fl_eval [of _ "5"]) (simp_all add: fl_calc)

lemma fl_value_22: "fl (117 / 2) = 117 / 2"
  by (subst fl_eval [of _ "5"]) (simp_all add: fl_calc)

lemma fl_value_23: "fl (263460578201174025 / 4503599627370496) = 117 / 2"
  by (subst fl_eval [of _ "5"]) (simp_all add: fl_calc)

lemma fl_value_24: "fl (135 / 2) = 135 / 2"
  by (subst fl_eval [of _ "6"]) (simp_all add: fl_calc)

lemma fl_value_25: "fl (20899517020766211 / 281474976710656) = 5224879255191553 / 70368744177664"
  by (subst fl_eval [of _ "6"]) (simp_all add: fl_calc)

lemma fl_value_26: "fl (351 / 4) = 351 / 4"
  by (subst fl_eval [of _ "6"]) (simp_all add: fl_calc)

lemma fl_value_27: "fl (6966505673588737 / 70368744177664) = 6966505673588737 / 70368744177664"
  by (subst fl_eval [of _ "6"]) (simp_all add: fl_calc)

lemma fl_value_28: "fl (405 / 4) = 405 / 4"
  by (subst fl_eval [of _ "6"]) (simp_all add: fl_calc)

lemmas fl_values = fl_value_1 fl_value_2 fl_value_3 fl_value_4 fl_value_5 fl_value_6 fl_value_7 fl_value_8 fl_value_9 fl_value_10 fl_value_11 fl_value_12 fl_value_13 fl_value_14 fl_value_15 fl_value_16 fl_value_17 fl_value_18 fl_value_19 fl_value_20 fl_value_21 fl_value_22 fl_value_23 fl_value_24 fl_value_25 fl_value_26 fl_value_27 fl_value_28

lemmas js_eval = lit_def jgt_def jge_def fl_values fl_numeral fl_one fl_zero floor_rat_numeral

section \<open>The classifier\<close>

lemma c_severity_classifyThreat: "c_severity (classifyThreat now tt sev b) = sev"
  by (simp add: classifyThreat_def Let_def split: prod.splits)

lemma a_severity_generateThreatAlert: "a_severity (generateThreatAlert r now dev td) = td_severity td"
  by (simp add: generateThreatAlert_def Let_def)

lemma anomaly_example: "jgt (Num (19/20)) (lit (7/10))"
  by (simp add: js_eval)

text \<open>
  Claim C10. Whenever \<open>simulateAIDetection(device)\<close> returns an alert, the alert's severity
  is medium, high or critical, whatever the device and the random draws.
\<close>

theorem simulateAIDetection_severity:
  "simulateAIDetection r1 r2 now dev = Some alert \<Longrightarrow>
     a_severity alert \<in> {SEVERITY_MEDIUM, SEVERITY_HIGH, SEVERITY_CRITICAL}"
  by (auto simp add: simulateAIDetection_def Let_def a_severity_generateThreatAlert
      c_severity_classifyThreat threat_data_of_def split: if_splits prod.splits)

theorem simulateAIDetection_severity_witness:
  "\<exists>alert. simulateAIDetection (19/20) (1/2) 1000 example_device = Some alert
     \<and> a_severity alert \<in> {SEVERITY_MEDIUM, SEVERITY_HIGH, SEVERITY_CRITICAL}"
proof -
  have "isAnomaly (analyzeDeviceBehavior (19/20) 1000 example_device)"
    by (simp add: analyzeDeviceBehavior_def Let_def anomaly_example)
  then have "simulateAIDetection (19/20) (1/2) 1000 example_device \<noteq> None"
    by (auto simp add: simulateAIDetection_def Let_def split: prod.splits)
  then obtain alert where h: "simulateAIDetection (19/20) (1/2) 1000 example_device = Some alert"
    by auto
  from simulateAIDetection_severity [OF h] h show ?thesis by simp
qed

lemma zero_score_values:
  "lit (7/10) \<noteq> jadd (lit (5/10)) (jmul (Num 0) (lit (4/10)))"
  "jadd (lit (5/10)) (jmul (Num 0) (lit (4/10))) = Num (1/2)"
  by (simp_all add: js_eval)

lemma classifyThreat_confidence:
  "anomalyScore bh = Some sc \<Longrightarrow> truthy_num sc \<Longrightarrow>
     c_confidence (classifyThreat now tt sev (Some bh)) = jadd (lit (5/10)) (jmul sc (lit (4/10)))"
  by (simp add: classifyThreat_def Let_def available_score_def split: prod.splits)

lemma classifyThreat_default_confidence:
  "b = None \<or> (\<exists>bh. b = Some bh \<and> anomalyScore bh = None) \<Longrightarrow>
     c_confidence (classifyThreat now tt sev b) = lit (7/10)"
  by (auto simp add: classifyThreat_def Let_def available_score_def split: prod.splits)

lemma classifyThreat_impactLevel:
  "impactLevel (classifyThreat now tt sev b) =
     (if sev = SEVERITY_CRITICAL then ''severe'' else if sev = SEVERITY_HIGH then ''significant''
      else if sev = SEVERITY_MEDIUM then ''moderate'' else if sev = SEVERITY_LOW then ''minor''
      else ''unknown'')"
  by (simp add: classifyThreat_def Let_def split: prod.splits)

lemma classifyThreat_ransomware:
  "impactLevel (classifyThreat now RANSOMWARE SEVERITY_CRITICAL b) = ''severe''
   \<and> ''Disconnect from network immediately''
       \<in> set (c_recommendedActions (classifyThreat now RANSOMWARE SEVERITY_CRITICAL b))"
  by (simp add: classifyThreat_def Let_def split: prod.splits)

text \<open>
  Claim C6. \<open>classifyThreat\<close> returns the confidence \<open>0.5 + anomalyScore * 0.4\<close> whenever a
  behavior record with an anomaly score in \<open>[0, 1)\<close> is supplied, and \<open>0.7\<close> otherwise.

  The code tests \<open>behavior && behavior.anomalyScore\<close>, and the score \<open>0\<close> is falsy: for a
  behavior record whose anomaly score is \<open>0\<close> the confidence is the default \<open>0.7\<close>, which is
  not \<open>0.5 + 0 * 0.4\<close>. The lemmas above give the rest of the claim: the formula for every
  other score, the default without a score, the impact levels and the ransomware scenario.
\<close>

theorem classifyThreat_zero_score:
  "c_confidence (classifyThreat now tt sev (Some (example_behavior (Num 0)))) = lit (7/10)
   \<and> lit (7/10) \<noteq> jadd (lit (5/10)) (jmul (Num 0) (lit (4/10)))"
proof (rule conjI)
  show "c_confidence (classifyThreat now tt sev (Some (example_behavior (Num 0)))) = lit (7/10)"
    by (simp add: classifyThreat_def Let_def available_score_def example_behavior_def
        split: prod.splits)
  show "lit (7/10) \<noteq> jadd (lit (5/10)) (jmul (Num 0) (lit (4/10)))"
    by (rule zero_score_values(1))
qed

lemma fl_ge_5: "5 \<le> x \<Longrightarrow> 5 \<le> fl x"
  using fl_mono [of 5 x] by (simp add: fl_numeral)

lemma risk_base_ge:
  assumes "0 \<le> r" "0 \<le> k" "5 \<le> b"
  shows "\<exists>x. jadd (Num b) (Math_floor (jmul (Num r) (Num k))) = Num x \<and> 5 \<le> x"
proof -
  have "0 \<le> fl (r * k)" using assms by (intro fl_nonneg) simp
  then have "0 \<le> \<lfloor>fl (r * k)\<rfloor>" by simp
  then have "(0::rat) \<le> of_int \<lfloor>fl (r * k)\<rfloor>" by (simp only: of_int_0_le_iff)
  then have "5 \<le> b + of_int \<lfloor>fl (r * k)\<rfloor>" using assms(3) by linarith
  then have "5 \<le> fl (b + of_int \<lfloor>fl (r * k)\<rfloor>)" by (rule fl_ge_5)
  then show ?thesis by simp
qed

lemma risk_score_range:
  assumes "5 \<le> b" "0 \<le> c"
  shows "\<exists>x. Math_min (Num 99) (jadd (Num b) (jmul (Num c) (Num 10))) = Num x \<and> 5 \<le> x \<and> x \<le> 99"
proof -
  have "0 \<le> fl (c * 10)" using assms by (intro fl_nonneg) simp
  then have "5 \<le> b + fl (c * 10)" using assms(1) by simp
  then have "5 \<le> fl (b + fl (c * 10))" by (rule fl_ge_5)
  then show ?thesis by simp
qed

text \<open>
  Claim C8. For every device and every threat data whose confidence lies in \<open>[0, 1]\<close>, the
  \<open>riskScore\<close> of \<open>generateThreatAlert(device, threatData)\<close> is a number between 5 and 99,
  whatever \<open>Math.random()\<close> returns. This holds for the four severities of the
  enumeration and for every other severity string as well, which takes the default branch.
\<close>

theorem riskScore_range:
  assumes "td_confidence td = Some (Num c)" and "0 \<le> c" and "c \<le> 1"
    and "0 \<le> r" and "r < 1"
  shows "\<exists>x. riskScore (generateThreatAlert r now dev td) = Num x \<and> 5 \<le> x \<and> x \<le> 99"
proof -
  define base where "base =
     (if td_severity td = SEVERITY_CRITICAL then jadd (Num 90) (Math_floor (jmul (Num r) (Num 10)))
      else if td_severity td = SEVERITY_HIGH then jadd (Num 70) (Math_floor (jmul (Num r) (Num 20)))
      else if td_severity td = SEVERITY_MEDIUM then jadd (Num 40) (Math_floor (jmul (Num r) (Num 30)))
      else if td_severity td = SEVERITY_LOW then jadd (Num 10) (Math_floor (jmul (Num r) (Num 30)))
      else jadd (Num 5) (Math_floor (jmul (Num r) (Num 15))))"
  have draw: "\<exists>x. jadd (Num b) (Math_floor (jmul (Num r) (Num k))) = Num x \<and> 5 \<le> x"
    if "0 \<le> k" "5 \<le> b" for b k
    using risk_base_ge [OF \<open>0 \<le> r\<close> that] .
  have "\<exists>b. base = Num b \<and> 5 \<le> b"
    unfolding base_def
    using draw [of 10 90] draw [of 20 70] draw [of 30 40] draw [of 30 10] draw [of 15 5]
    by (simp split: if_splits)
  then obtain b where b: "base = Num b" "5 \<le> b" by blast
  have "riskScore (generateThreatAlert r now dev td)
          = Math_min (Num 99) (jadd base (jmul (Num c) (Num 10)))"
    using assms(1) by (simp add: generateThreatAlert_def Let_def base_def num_of_def)
  then show ?thesis using risk_score_range [OF b(2) \<open>0 \<le> c\<close>] b(1) by simp
qed

theorem riskScore_range_witness:
  "\<exists>x. riskScore (generateThreatAlert (1/2) 1000 example_device example_threat_data) = Num x
     \<and> 5 \<le> x \<and> x \<le> 99"
  using riskScore_range [of example_threat_data "3/4" "1/2" 1000 example_device]
  by (simp add: example_threat_data_def)

section \<open>The estimated durations\<close>

lemma durations_table:
  "map snd (timeline_durations (createResponseTimeline (Some RANSOMWARE) (Some SEVERITY_LOW)))
     = [Num 11, Num 21, Num 47, Num 31, Num 42]"
  "map snd (timeline_durations (createResponseTimeline (Some RANSOMWARE) (Some SEVERITY_MEDIUM)))
     = [Num 15, Num 30, Num 68, Num 45, Num 60]"
  "map snd (timeline_durations (createResponseTimeline (Some RANSOMWARE) (Some SEVERITY_HIGH)))
     = [Num 23, Num 45, Num 101, Num 68, Num 90]"
  "map snd (timeline_durations (createResponseTimeline (Some RANSOMWARE) (Some SEVERITY_CRITICAL)))
     = [Num 30, Num 60, Num 135, Num 90, Num 120]"
  "map snd (timeline_durations (createResponseTimeline (Some FIRMWARE_TAMPERING) (Some SEVERITY_LOW)))
     = [Num 11, Num 21, Num 41, Num 25, Num 42]"
  "map snd (timeline_durations (createResponseTimeline (Some FIRMWARE_TAMPERING) (Some SEVERITY_MEDIUM)))
     = [Num 15, Num 30, Num 59, Num 36, Num 60]"
  "map snd (timeline_durations (createResponseTimeline (Some FIRMWARE_TAMPERING) (Some SEVERITY_HIGH)))
     = [Num 23, Num 45, Num 88, Num 54, Num 90]"
  "map snd (timeline_durations (createResponseTimeline (Some FIRMWARE_TAMPERING) (Some SEVERITY_CRITICAL)))
     = [Num 30, Num 60, Num 117, Num 72, Num 120]"
  "map snd (timeline_durations (createResponseTimeline (Some DATA_MANIPULATION) (Some SEVERITY_LOW)))
     = [Num 13, Num 21, Num 35, Num 21, Num 42]"
  "map snd (timeline_durations (createResponseTimeline (Some DATA_MANIPULATION) (Some SEVERITY_MEDIUM)))
     = [Num 18, Num 30, Num 50, Num 30, Num 60]"
  "map snd (timeline_durations (createResponseTimeline (Some DATA_MANIPULATION) (Some SEVERITY_HIGH)))
     = [Num 27, Num 45, Num 74, Num 45, Num 90]"
  "map snd (timeline_durations (createResponseTimeline (Some DATA_MANIPULATION) (Some SEVERITY_CRITICAL)))
     = [Num 36, Num 60, Num 99, Num 60, Num 120]"
  "map snd (timeline_durations (createResponseTimeline (None) (Some SEVERITY_LOW)))
     = [Num 11, Num 21, Num 31, Num 21, Num 42]"
  "map snd (timeline_durations (createResponseTimeline (None) (Some SEVERITY_MEDIUM)))
     = [Num 15, Num 30, Num 45, Num 30, Num 60]"
  "map snd (timeline_durations (createResponseTimeline (None) (Some SEVERITY_HIGH)))
     = [Num 23, Num 45, Num 68, Num 45, Num 90]"
  "map snd (timeline_durations (createResponseTimeline (None) (Some SEVERITY_CRITICAL)))
     = [Num 30, Num 60, Num 90, Num 60, Num 120]"
  by (simp_all add: timeline_durations_def createResponseTimeline_def Object_entries_def
      pending_phase_def severityMultiplier_def js_eval)

lemma totals_table:
  "calculateEstimatedCompletionTime (createResponseTimeline (Some RANSOMWARE) (Some SEVERITY_LOW)) = Num 152"
  "calculateEstimatedCompletionTime (createResponseTimeline (Some RANSOMWARE) (Some SEVERITY_CRITICAL)) = Num 435"
  "calculateEstimatedCompletionTime (createResponseTimeline (Some FIRMWARE_TAMPERING) (Some SEVERITY_LOW)) = Num 140"
  "calculateEstimatedCompletionTime (createResponseTimeline (Some FIRMWARE_TAMPERING) (Some SEVERITY_CRITICAL)) = Num 399"
  "calculateEstimatedCompletionTime (createResponseTimeline (Some DATA_MANIPULATION) (Some SEVERITY_LOW)) = Num 132"
  "calculateEstimatedCompletionTime (createResponseTimeline (Some DATA_MANIPULATION) (Some SEVERITY_CRITICAL)) = Num 375"
  "calculateEstimatedCompletionTime (createResponseTimeline (None) (Some SEVERITY_LOW)) = Num 126"
  "calculateEstimatedCompletionTime (createResponseTimeline (None) (Some SEVERITY_CRITICAL)) = Num 360"
  by (simp_all add: calculateEstimatedCompletionTime_def Object_values_def createResponseTimeline_def
      Object_entries_def pending_phase_def severityMultiplier_def js_eval)

lemma malware_timeline:
  "createResponseTimeline (Some MALWARE) sv = createResponseTimeline (Some RANSOMWARE) sv"
  by (simp add: createResponseTimeline_def)

lemma other_type_timeline:
  "tt \<noteq> Some RANSOMWARE \<Longrightarrow> tt \<noteq> Some MALWARE \<Longrightarrow> tt \<noteq> Some FIRMWARE_TAMPERING
     \<Longrightarrow> tt \<noteq> Some DATA_MANIPULATION
     \<Longrightarrow> createResponseTimeline tt sv = createResponseTimeline None sv"
  by (simp add: createResponseTimeline_def)

lemma threat_type_cases:
  obtains "tt = Some RANSOMWARE" | "tt = Some MALWARE" | "tt = Some FIRMWARE_TAMPERING"
    | "tt = Some DATA_MANIPULATION"
    | "tt \<noteq> Some RANSOMWARE" "tt \<noteq> Some MALWARE" "tt \<noteq> Some FIRMWARE_TAMPERING"
      "tt \<noteq> Some DATA_MANIPULATION"
  by blast

lemmas duration_defs = timeline_durations_def createResponseTimeline_def Object_entries_def
  pending_phase_def spec_duration_def spec_type_multiplier_def spec_base_minutes_def
  spec_severity_multiplier_def severityMultiplier_def Let_def

lemma durations_refine:
  assumes "sev \<in> {SEVERITY_LOW, SEVERITY_MEDIUM, SEVERITY_HIGH, SEVERITY_CRITICAL}"
  shows "timeline_durations (createResponseTimeline tt (Some sev))
     = map (\<lambda>ph. (ph, spec_duration tt sev ph))
         [IDENTIFICATION, CONTAINMENT, ERADICATION, RECOVERY, LESSONS_LEARNED]"
proof -
  from assms consider "sev = SEVERITY_LOW" | "sev = SEVERITY_MEDIUM" | "sev = SEVERITY_HIGH"
    | "sev = SEVERITY_CRITICAL" by blast
  then show ?thesis
  proof cases
    case 1
    show ?thesis unfolding 1 by (cases tt rule: threat_type_cases) (simp_all add: duration_defs)
  next
    case 2
    show ?thesis unfolding 2 by (cases tt rule: threat_type_cases) (simp_all add: duration_defs)
  next
    case 3
    show ?thesis unfolding 3 by (cases tt rule: threat_type_cases) (simp_all add: duration_defs)
  next
    case 4
    show ?thesis unfolding 4 by (cases tt rule: threat_type_cases) (simp_all add: duration_defs)
  qed
qed

lemma low_lt_critical:
  "jlt (calculateEstimatedCompletionTime (createResponseTimeline tt (Some SEVERITY_LOW)))
       (calculateEstimatedCompletionTime (createResponseTimeline tt (Some SEVERITY_CRITICAL)))"
proof (cases tt rule: threat_type_cases)
  case 5
  have other: "createResponseTimeline tt sv = createResponseTimeline None sv" for sv
    using 5 by (rule other_type_timeline)
  show ?thesis unfolding other by (simp add: totals_table)
qed (simp_all add: totals_table malware_timeline)

text \<open>
  Claim C5. For each of the four severities and every threat type,
  \<open>createResponseTimeline\<close> gives each phase the duration that the specification words:
  the base minutes 15, 30, 45, 30, 60, times the multiplier of the threat type where it has
  one, then times the multiplier of the severity, rounded. The total for severity low is
  smaller than the total for severity critical. All products are products of doubles;
  \<open>durations_table\<close> lists the resulting minutes.
\<close>

theorem createResponseTimeline_durations:
  assumes "sev \<in> {SEVERITY_LOW, SEVERITY_MEDIUM, SEVERITY_HIGH, SEVERITY_CRITICAL}"
  shows "timeline_durations (createResponseTimeline tt (Some sev))
           = map (\<lambda>ph. (ph, spec_duration tt sev ph))
               [IDENTIFICATION, CONTAINMENT, ERADICATION, RECOVERY, LESSONS_LEARNED]
         \<and> jlt (calculateEstimatedCompletionTime (createResponseTimeline tt (Some SEVERITY_LOW)))
               (calculateEstimatedCompletionTime (createResponseTimeline tt (Some SEVERITY_CRITICAL)))"
  using durations_refine [OF assms] low_lt_critical by simp

theorem createResponseTimeline_durations_witness:
  "timeline_durations (createResponseTimeline (Some RANSOMWARE) (Some SEVERITY_LOW))
     = map (\<lambda>ph. (ph, spec_duration (Some RANSOMWARE) SEVERITY_LOW ph))
         [IDENTIFICATION, CONTAINMENT, ERADICATION, RECOVERY, LESSONS_LEARNED]
   \<and> jlt (calculateEstimatedCompletionTime (createResponseTimeline (Some RANSOMWARE) (Some SEVERITY_LOW)))
         (calculateEstimatedCompletionTime (createResponseTimeline (Some RANSOMWARE) (Some SEVERITY_CRITICAL)))"
  using createResponseTimeline_durations [of SEVERITY_LOW "Some RANSOMWARE"] by simp

section \<open>Reports\<close>

lemma minutes_between_nonneg:
  assumes "ms_of x = Num a" "ms_of y = Num b" "a \<le> b"
  shows "\<exists>m. minutes_between x y = Num m \<and> 0 \<le> m"
proof -
  define d where "d = fl (b - a)"
  have "0 \<le> d" unfolding d_def using assms(3) by (intro fl_nonneg) simp
  then have "0 \<le> fl (d / 60000)" by (intro fl_nonneg) simp
  then have "0 \<le> \<lfloor>fl (d / 60000) + 1 / 2\<rfloor>" by simp
  then have "(0::rat) \<le> of_int \<lfloor>fl (d / 60000) + 1 / 2\<rfloor>" by (simp only: of_int_0_le_iff)
  moreover have "minutes_between x y = Num (of_int \<lfloor>fl (d / 60000) + 1 / 2\<rfloor>)"
    using assms(1,2) by (simp add: minutes_between_def d_def fl_numeral)
  ultimately show ?thesis by blast
qed

lemma calculateCompletionPercentage_returns:
  "status p = PENDING \<or> responseSteps p \<noteq> None \<Longrightarrow> \<exists>pct. calculateCompletionPercentage p = Inr pct"
  by (auto simp add: calculateCompletionPercentage_def)

lemma calculateCompletionPercentage_throws:
  "status p \<noteq> COMPLETED \<Longrightarrow> status p \<noteq> PENDING \<Longrightarrow> responseSteps p = None
     \<Longrightarrow> calculateCompletionPercentage p = Inl TypeError"
  by (simp add: calculateCompletionPercentage_def)

text \<open>
  Claim C7, as stated, fails on a plan that has no list \<open>responseSteps\<close>. In progress, its
  completion percentage is computed from the list, and the call throws instead of
  returning the stub; completed, with a completion time after its start time, its steps
  are counted for the report, and the call throws as well.
\<close>

theorem generateResponseReport_without_steps:
  "status (example_started_plan \<lparr> responseSteps := None \<rparr>) \<noteq> COMPLETED
   \<and> generateResponseReport (example_started_plan \<lparr> responseSteps := None \<rparr>) = Inl TypeError
   \<and> generateResponseReport (example_started_plan
         \<lparr> status := COMPLETED, actualCompletionTime := IsoString 120000, responseSteps := None \<rparr>)
       = Inl TypeError"
  by (simp add: generateResponseReport_def calculateCompletionPercentage_def Let_def
      example_started_plan_def example_plan_def)

text \<open>
  Claim C7, amended. \<open>generateResponseReport\<close> returns the stub with status \<open>Incomplete\<close>
  and the completion percentage for every plan whose status is not \<open>completed\<close> and that
  is pending or has its list of steps. It returns the full report, whose total response
  time is not negative, for every plan whose status is \<open>completed\<close>, that has its list of
  steps and whose completion time, read as a date, is not before its start time. A plan
  without the list that is not pending makes the call throw. The function only reads the
  plan: it returns the report and nothing else.
\<close>

theorem generateResponseReport_cases:
  "(status p \<noteq> COMPLETED \<and> (status p = PENDING \<or> responseSteps p \<noteq> None) \<longrightarrow>
      (\<exists>rep pct. generateResponseReport p = Inr (Incomplete rep)
         \<and> ir_status rep = ''Incomplete'' \<and> ir_incidentId rep = incidentId p
         \<and> calculateCompletionPercentage p = Inr pct \<and> completionPercentage rep = pct))
   \<and> (status p = COMPLETED \<and> responseSteps p \<noteq> None
        \<and> ms_of (startTime p) = Num a \<and> ms_of (actualCompletionTime p) = Num b \<and> a \<le> b \<longrightarrow>
      (\<exists>rep m. generateResponseReport p = Inr (Completed rep)
         \<and> fr_status rep = ''Completed'' \<and> fr_incidentId rep = incidentId p
         \<and> totalResponseTimeMinutes rep = Num m \<and> 0 \<le> m))
   \<and> (status p \<noteq> PENDING \<and> responseSteps p = None \<longrightarrow> generateResponseReport p = Inl TypeError)"
proof (intro conjI impI)
  assume a: "status p \<noteq> COMPLETED \<and> (status p = PENDING \<or> responseSteps p \<noteq> None)"
  then obtain pct where "calculateCompletionPercentage p = Inr pct"
    using calculateCompletionPercentage_returns [of p] by blast
  with a show "\<exists>rep pct. generateResponseReport p = Inr (Incomplete rep)
         \<and> ir_status rep = ''Incomplete'' \<and> ir_incidentId rep = incidentId p
         \<and> calculateCompletionPercentage p = Inr pct \<and> completionPercentage rep = pct"
    by (simp add: generateResponseReport_def)
next
  assume a: "status p = COMPLETED \<and> responseSteps p \<noteq> None
        \<and> ms_of (startTime p) = Num a \<and> ms_of (actualCompletionTime p) = Num b \<and> a \<le> b"
  then obtain m where m: "minutes_between (startTime p) (actualCompletionTime p) = Num m" "0 \<le> m"
    using minutes_between_nonneg [of "startTime p" a "actualCompletionTime p" b] by blast
  from a obtain ss where "responseSteps p = Some ss" by blast
  with a m show "\<exists>rep m. generateResponseReport p = Inr (Completed rep)
         \<and> fr_status rep = ''Completed'' \<and> fr_incidentId rep = incidentId p
         \<and> totalResponseTimeMinutes rep = Num m \<and> 0 \<le> m"
    by (simp add: generateResponseReport_def Let_def)
next
  assume a: "status p \<noteq> PENDING \<and> responseSteps p = None"
  show "generateResponseReport p = Inl TypeError"
  proof (cases "status p = COMPLETED")
    case True
    with a show ?thesis by (simp add: generateResponseReport_def Let_def)
  next
    case False
    with a have "calculateCompletionPercentage p = Inl TypeError"
      by (intro calculateCompletionPercentage_throws) simp_all
    with False show ?thesis by (simp add: generateResponseReport_def)
  qed
qed

theorem generateResponseReport_cases_witness:
  "(\<exists>rep pct. generateResponseReport (example_plan \<lparr> responseSteps := None \<rparr>) = Inr (Incomplete rep)
       \<and> ir_status rep = ''Incomplete'' \<and> ir_incidentId rep = ''INC-1''
       \<and> calculateCompletionPercentage (example_plan \<lparr> responseSteps := None \<rparr>) = Inr pct
       \<and> completionPercentage rep = pct)
   \<and> (\<exists>rep pct. generateResponseReport example_started_plan = Inr (Incomplete rep)
       \<and> ir_status rep = ''Incomplete'' \<and> ir_incidentId rep = ''INC-1''
       \<and> calculateCompletionPercentage example_started_plan = Inr pct \<and> completionPercentage rep = pct)
   \<and> (\<exists>rep m. generateResponseReport
          (example_plan \<lparr> status := COMPLETED, actualCompletionTime := IsoString 120000 \<rparr>)
            = Inr (Completed rep)
       \<and> fr_status rep = ''Completed'' \<and> fr_incidentId rep = ''INC-1''
       \<and> totalResponseTimeMinutes rep = Num m \<and> 0 \<le> m)
   \<and> generateResponseReport (example_started_plan \<lparr> status := COMPLETED, responseSteps := None \<rparr>)
       = Inl TypeError"
  using generateResponseReport_cases [of "example_plan \<lparr> responseSteps := None \<rparr>" 0 0]
    generateResponseReport_cases [of example_started_plan 0 0]
    generateResponseReport_cases
      [of "example_plan \<lparr> status := COMPLETED, actualCompletionTime := IsoString 120000 \<rparr>" 0 120000]
    generateResponseReport_cases
      [of "example_started_plan \<lparr> status := COMPLETED, responseSteps := None \<rparr>" 0 0]
  by (simp add: example_started_plan_def example_plan_def ms_of_def)

section \<open>Progress of a started plan\<close>

lemma phase_keys_length: "length phase_keys = 5"
  by (simp add: phase_keys_def RESPONSE_PHASES_def)

lemma phase_at_nat:
  "phase_at (Num (of_nat i)) =
     (if i = 0 then Some IDENTIFICATION else if i = 1 then Some CONTAINMENT
      else if i = 2 then Some ERADICATION else if i = 3 then Some RECOVERY
      else if i = 4 then Some LESSONS_LEARNED else None)"
proof -
  consider "i = 0" | "i = 1" | "i = 2" | "i = 3" | "i = 4" | "5 \<le> i" by linarith
  then show ?thesis
    by cases (simp_all add: phase_at_def nth_opt_def phase_keys_def RESPONSE_PHASES_def)
qed

lemma fl_le_one: "x \<le> 1 \<Longrightarrow> fl x \<le> 1"
  using fl_mono [of x 1] by (simp add: fl_one)

lemma fl_le_5: "x \<le> 5 \<Longrightarrow> fl x \<le> 5"
  using fl_mono [of x 5] by (simp add: fl_numeral)

lemma raw_index_range:
  assumes "0 \<le> q" "q \<le> 100"
  shows "0 \<le> \<lfloor>fl (fl (q / 100) * 5)\<rfloor>" and "\<lfloor>fl (fl (q / 100) * 5)\<rfloor> \<le> 5"
proof -
  have a: "0 \<le> fl (q / 100)" using assms(1) by (intro fl_nonneg) simp
  then have "0 \<le> fl (fl (q / 100) * 5)" by (intro fl_nonneg) simp
  then show "0 \<le> \<lfloor>fl (fl (q / 100) * 5)\<rfloor>" by simp
  have "fl (q / 100) \<le> 1" using assms(2) by (intro fl_le_one) simp
  then have "fl (fl (q / 100) * 5) \<le> 5" by (intro fl_le_5) simp
  then have "\<lfloor>fl (fl (q / 100) * 5)\<rfloor> \<le> \<lfloor>5::rat\<rfloor>" by (rule floor_mono)
  then show "\<lfloor>fl (fl (q / 100) * 5)\<rfloor> \<le> 5" by simp
qed

lemma currentPhaseIndex_number:
  assumes "0 \<le> q" "q \<le> 100"
  shows "currentPhaseIndex (Num q) = Num (of_nat (phase_number q))" and "phase_number q \<le> 4"
proof -
  define z where "z = \<lfloor>fl (fl (q / 100) * 5)\<rfloor>"
  have z: "0 \<le> z" "z \<le> 5" using raw_index_range [OF assms] by (simp_all add: z_def)
  have c: "currentPhaseIndex (Num q) = (if 5 \<le> z then Num 4 else Num (of_int z))"
    by (simp add: currentPhaseIndex_def phase_keys_length Let_def jge_def z_def fl_numeral)
  have n: "phase_number q = nat (min 4 z)" by (simp add: phase_number_def z_def)
  show "phase_number q \<le> 4" unfolding n using z by simp
  show "currentPhaseIndex (Num q) = Num (of_nat (phase_number q))"
  proof (cases "5 \<le> z")
    case True
    then show ?thesis unfolding c n by simp
  next
    case False
    then have "rat_of_nat (nat (min 4 z)) = of_int z" using z by simp
    with False show ?thesis unfolding c n by simp
  qed
qed

lemma phase_number_mono: "q \<le> q' \<Longrightarrow> phase_number q \<le> phase_number q'"
proof -
  assume "q \<le> q'"
  then have "q / 100 \<le> q' / 100" by simp
  then have "fl (q / 100) \<le> fl (q' / 100)" by (rule fl_mono)
  then have "fl (q / 100) * 5 \<le> fl (q' / 100) * 5" by simp
  then have "fl (fl (q / 100) * 5) \<le> fl (fl (q' / 100) * 5)" by (rule fl_mono)
  then have "\<lfloor>fl (fl (q / 100) * 5)\<rfloor> \<le> \<lfloor>fl (fl (q' / 100) * 5)\<rfloor>" by (rule floor_mono)
  then show ?thesis unfolding phase_number_def by (intro nat_mono) simp
qed

lemma phase_number_100: "phase_number 100 = 4"
  by (simp add: phase_number_def fl_one fl_numeral)

lemma loop_range_nat: "loop_range (Num (of_nat k)) = [0 ..< Suc k]"
  by (simp add: loop_range_def nat_add_distrib)

lemma phase_at_values:
  "phase_at (Num 0) = Some IDENTIFICATION" "phase_at (Num 1) = Some CONTAINMENT"
  "phase_at (Num 2) = Some ERADICATION" "phase_at (Num 3) = Some RECOVERY"
  "phase_at (Num 4) = Some LESSONS_LEARNED"
  by (simp_all add: phase_at_def nth_opt_def phase_keys_def RESPONSE_PHASES_def)

lemma advance_closed:
  assumes "k \<le> 4"
  shows "\<exists>t'. advance_phases now p (Num (of_nat k)) (loop_range (Num (of_nat k))) t = Inr t'
     \<and> identification t' = mark_at now (jlt p (Num 100)) k 0 (identification t)
     \<and> containment t' = mark_at now (jlt p (Num 100)) k 1 (containment t)
     \<and> eradication t' = mark_at now (jlt p (Num 100)) k 2 (eradication t)
     \<and> recovery t' = mark_at now (jlt p (Num 100)) k 3 (recovery t)
     \<and> lessons_learned t' = mark_at now (jlt p (Num 100)) k 4 (lessons_learned t)"
proof -
  from assms consider "k = 0" | "k = 1" | "k = 2" | "k = 3" | "k = 4" by linarith
  then show ?thesis
  proof cases
    case 1
    show ?thesis unfolding loop_range_nat 1
      by (simp add: advance_phase_def phase_at_values tl_get_def tl_set_def mark_at_def upt_rec)
  next
    case 2
    show ?thesis unfolding loop_range_nat 2
      by (simp add: advance_phase_def phase_at_values tl_get_def tl_set_def mark_at_def upt_rec)
  next
    case 3
    show ?thesis unfolding loop_range_nat 3
      by (simp add: advance_phase_def phase_at_values tl_get_def tl_set_def mark_at_def upt_rec)
  next
    case 4
    show ?thesis unfolding loop_range_nat 4
      by (simp add: advance_phase_def phase_at_values tl_get_def tl_set_def mark_at_def upt_rec)
  next
    case 5
    show ?thesis unfolding loop_range_nat 5
      by (simp add: advance_phase_def phase_at_values tl_get_def tl_set_def mark_at_def upt_rec)
  qed
qed

lemma indexOf_range: "- 1 \<le> indexOf xs x \<and> indexOf xs x < int (length xs)"
  by (induction xs) (auto simp add: Let_def)

lemma progress_step_100: "s_status (progress_step now (Num 100) (Num 4) st) = COMPLETED"
proof -
  define i where "i = indexOf phase_keys (toUpperCase (s_phase st))"
  have "i < 5" using indexOf_range [of phase_keys "toUpperCase (s_phase st)"]
    by (simp add: i_def phase_keys_length)
  then consider "i < 4" | "i = 4" by linarith
  then show ?thesis
    by cases (simp_all add: progress_step_def Let_def complete_step_def i_def [symmetric])
qed

lemma simulate_effect:
  assumes "0 \<le> q" "q \<le> 100" "truthy_time (startTime p)" "status p \<noteq> COMPLETED"
    and "responseSteps p = Some ss" "notes p = Some ns"
  shows "\<exists>p'. simulateResponseProgress now p (Num q) = Inr p'
     \<and> identification (timeline p') = mark_at now (q < 100) (phase_number q) 0 (identification (timeline p))
     \<and> containment (timeline p') = mark_at now (q < 100) (phase_number q) 1 (containment (timeline p))
     \<and> eradication (timeline p') = mark_at now (q < 100) (phase_number q) 2 (eradication (timeline p))
     \<and> recovery (timeline p') = mark_at now (q < 100) (phase_number q) 3 (recovery (timeline p))
     \<and> lessons_learned (timeline p') = mark_at now (q < 100) (phase_number q) 4 (lessons_learned (timeline p))
     \<and> status p' = (if q = 100 then COMPLETED else status p)
     \<and> startTime p' = startTime p
     \<and> responseSteps p' = Some (map (progress_step now (Num q) (Num (of_nat (phase_number q)))) ss)
     \<and> notes p' \<noteq> None"
proof -
  have idx: "currentPhaseIndex (Num q) = Num (of_nat (phase_number q))" and k4: "phase_number q \<le> 4"
    using currentPhaseIndex_number [OF assms(1,2)] by simp_all
  obtain t' where t': "advance_phases now (Num q) (Num (of_nat (phase_number q)))
        (loop_range (Num (of_nat (phase_number q)))) (timeline p) = Inr t'"
    and f: "identification t' = mark_at now (q < 100) (phase_number q) 0 (identification (timeline p))"
      "containment t' = mark_at now (q < 100) (phase_number q) 1 (containment (timeline p))"
      "eradication t' = mark_at now (q < 100) (phase_number q) 2 (eradication (timeline p))"
      "recovery t' = mark_at now (q < 100) (phase_number q) 3 (recovery (timeline p))"
      "lessons_learned t' = mark_at now (q < 100) (phase_number q) 4 (lessons_learned (timeline p))"
    using advance_closed [OF k4, of now "Num q" "timeline p"] by auto
  have h: "jge (Num q) (Num 100) \<longleftrightarrow> q = 100" using assms(2) by (auto simp add: jge_def)
  show ?thesis
    using assms(3-6) t' f
    by (simp add: simulateResponseProgress_def Let_def idx h)
qed

lemma completed_phases_subset:
  assumes "pe_status (identification (timeline p)) = COMPLETED
             \<longrightarrow> pe_status (identification (timeline p')) = COMPLETED"
    and "pe_status (containment (timeline p)) = COMPLETED
             \<longrightarrow> pe_status (containment (timeline p')) = COMPLETED"
    and "pe_status (eradication (timeline p)) = COMPLETED
             \<longrightarrow> pe_status (eradication (timeline p')) = COMPLETED"
    and "pe_status (recovery (timeline p)) = COMPLETED
             \<longrightarrow> pe_status (recovery (timeline p')) = COMPLETED"
    and "pe_status (lessons_learned (timeline p)) = COMPLETED
             \<longrightarrow> pe_status (lessons_learned (timeline p')) = COMPLETED"
  shows "completed_phases p \<subseteq> completed_phases p'"
  using assms by (auto simp add: completed_phases_def Object_entries_def)

lemma mark_status:
  "pe_status (mark_done now e) = COMPLETED" "pe_status (mark_current now e) = IN_PROGRESS"
  by (simp_all add: mark_done_def mark_current_def)

lemma statuses_list:
  "map pe_status (Object_values t) =
     [pe_status (identification t), pe_status (containment t), pe_status (eradication t),
      pe_status (recovery t), pe_status (lessons_learned t)]"
  by (simp add: Object_values_def Object_entries_def)

lemma mark_at_status:
  "pe_status (mark_at now c k j e) =
     (if j < k then COMPLETED else if j = k then (if c then IN_PROGRESS else COMPLETED)
      else pe_status e)"
  by (simp add: mark_at_def mark_status)

lemma not_completed_from_iff:
  "COMPLETED \<notin> set (drop k [a0, a1, a2, a3, a4]) \<longleftrightarrow>
     (k \<le> 0 \<longrightarrow> a0 \<noteq> COMPLETED) \<and> (k \<le> 1 \<longrightarrow> a1 \<noteq> COMPLETED) \<and> (k \<le> 2 \<longrightarrow> a2 \<noteq> COMPLETED)
     \<and> (k \<le> 3 \<longrightarrow> a3 \<noteq> COMPLETED) \<and> (k \<le> 4 \<longrightarrow> a4 \<noteq> COMPLETED)"
proof -
  consider "k = 0" | "k = 1" | "k = 2" | "k = 3" | "k = 4" | "5 \<le> k" by linarith
  then show ?thesis by cases auto
qed

lemma progress_call:
  assumes inv: "progressed_to k p" and q: "0 \<le> q" "q \<le> 100" and k: "k \<le> phase_number q"
  shows "\<exists>p'. simulateResponseProgress now p (Num q) = Inr p'
     \<and> completed_phases p \<subseteq> completed_phases p'
     \<and> progressed_to (phase_number q) p'
     \<and> (q = 100 \<longrightarrow> all_completed p')"
proof (cases "status p = COMPLETED")
  case True
  then have "simulateResponseProgress now p (Num q) = Inr p"
    by (simp add: simulateResponseProgress_def)
  moreover have "all_completed p" using inv True by (simp add: progressed_to_def)
  moreover have "progressed_to (phase_number q) p" using inv True by (simp add: progressed_to_def)
  ultimately show ?thesis by simp
next
  case False
  from inv False obtain ss ns where sn: "truthy_time (startTime p)" "responseSteps p = Some ss" "notes p = Some ns"
    by (auto simp add: progressed_to_def)
  define k' where "k' = phase_number q"
  have k4: "k' \<le> 4" using currentPhaseIndex_number(2) [OF q] by (simp add: k'_def)
  have "COMPLETED \<notin> set (drop k (map pe_status (Object_values (timeline p))))"
    using inv False by (simp add: progressed_to_def)
  then have old:
    "k' \<le> 0 \<longrightarrow> pe_status (identification (timeline p)) \<noteq> COMPLETED"
    "k' \<le> 1 \<longrightarrow> pe_status (containment (timeline p)) \<noteq> COMPLETED"
    "k' \<le> 2 \<longrightarrow> pe_status (eradication (timeline p)) \<noteq> COMPLETED"
    "k' \<le> 3 \<longrightarrow> pe_status (recovery (timeline p)) \<noteq> COMPLETED"
    "k' \<le> 4 \<longrightarrow> pe_status (lessons_learned (timeline p)) \<noteq> COMPLETED"
    using k unfolding statuses_list not_completed_from_iff k'_def by auto
  obtain p' where run: "simulateResponseProgress now p (Num q) = Inr p'"
    and f: "identification (timeline p') = mark_at now (q < 100) k' 0 (identification (timeline p))"
      "containment (timeline p') = mark_at now (q < 100) k' 1 (containment (timeline p))"
      "eradication (timeline p') = mark_at now (q < 100) k' 2 (eradication (timeline p))"
      "recovery (timeline p') = mark_at now (q < 100) k' 3 (recovery (timeline p))"
      "lessons_learned (timeline p') = mark_at now (q < 100) k' 4 (lessons_learned (timeline p))"
    and st: "status p' = (if q = 100 then COMPLETED else status p)"
    and rest: "startTime p' = startTime p"
      "responseSteps p' = Some (map (progress_step now (Num q) (Num (of_nat k'))) ss)"
      "notes p' \<noteq> None"
    using simulate_effect [OF q sn(1) False sn(2,3), of now] unfolding k'_def by blast
  have sub: "completed_phases p \<subseteq> completed_phases p'"
    using old by (intro completed_phases_subset) (auto simp add: f mark_at_status)
  have inv': "progressed_to k' p'" if "q < 100"
  proof -
    have "status p' \<noteq> COMPLETED" using st False that by simp
    moreover have "COMPLETED \<notin> set (drop k' (map pe_status (Object_values (timeline p'))))"
      unfolding statuses_list not_completed_from_iff using old that
      by (auto simp add: f mark_at_status)
    ultimately show ?thesis using rest sn(1) by (simp add: progressed_to_def)
  qed
  have fin: "all_completed p'" if "q = 100"
  proof -
    have k100: "k' = 4" using that by (simp add: k'_def phase_number_100)
    have "list_all (\<lambda>e. pe_status e = COMPLETED) (Object_values (timeline p'))"
      using that by (simp add: Object_values_def Object_entries_def f k100 mark_at_status)
    moreover have "list_all (\<lambda>st. s_status st = COMPLETED)
        (map (progress_step now (Num q) (Num (of_nat k'))) ss)"
      unfolding that k100 by (simp add: list_all_iff progress_step_100)
    ultimately show ?thesis using st that rest by (simp add: all_completed_def)
  qed
  have "progressed_to k' p'"
  proof (cases "q = 100")
    case True
    then show ?thesis using fin st rest sn(1) by (simp add: progressed_to_def)
  next
    case False
    then show ?thesis using inv' q by simp
  qed
  then show ?thesis using run sub fin by (simp add: k'_def)
qed

lemma progress_run_inv:
  assumes "progressed_to k p" and "sorted (map snd calls)"
    and "\<forall>c \<in> set calls. 0 \<le> snd c \<and> snd c \<le> 100 \<and> k \<le> phase_number (snd c)"
  shows "\<exists>ps. progress_run calls p = Inr ps \<and> length ps = length calls \<and> never_shrinks p ps
     \<and> list_all2 (\<lambda>c p'. snd c = 100 \<longrightarrow> all_completed p') calls ps"
  using assms
proof (induction calls arbitrary: p k)
  case Nil
  then show ?case by simp
next
  case (Cons c cs)
  obtain now q where c: "c = (now, q)" by (cases c)
  have q: "0 \<le> q" "q \<le> 100" "k \<le> phase_number q" using Cons.prems(3) by (simp_all add: c)
  obtain p' where step: "simulateResponseProgress now p (Num q) = Inr p'"
    and sub: "completed_phases p \<subseteq> completed_phases p'"
    and inv': "progressed_to (phase_number q) p'"
    and fin: "q = 100 \<longrightarrow> all_completed p'"
    using progress_call [OF Cons.prems(1) q, of now] by blast
  have sorted': "sorted (map snd cs)" using Cons.prems(2) by simp
  have later: "\<forall>d \<in> set cs. 0 \<le> snd d \<and> snd d \<le> 100 \<and> phase_number q \<le> phase_number (snd d)"
  proof
    fix d
    assume d: "d \<in> set cs"
    then have "q \<le> snd d" using Cons.prems(2) by (auto simp add: c)
    then have "phase_number q \<le> phase_number (snd d)" by (rule phase_number_mono)
    then show "0 \<le> snd d \<and> snd d \<le> 100 \<and> phase_number q \<le> phase_number (snd d)"
      using Cons.prems(3) d by simp
  qed
  obtain ps where rest: "progress_run cs p' = Inr ps" "length ps = length cs" "never_shrinks p' ps"
    "list_all2 (\<lambda>c p'. snd c = 100 \<longrightarrow> all_completed p') cs ps"
    using Cons.IH [OF inv' sorted' later] by blast
  show ?case using step sub fin rest by (simp add: c)
qed

lemma startResponse_fresh:
  assumes "fresh_plan p0"
  shows "\<exists>p1. startResponse t0 p0 = Inr p1 \<and> progressed_to 0 p1"
proof -
  from assms obtain ss ns where sn: "responseSteps p0 = Some ss" "notes p0 = Some ns"
    by (auto simp add: fresh_plan_def)
  have pend: "pe_status (containment (timeline p0)) = PENDING"
    "pe_status (eradication (timeline p0)) = PENDING" "pe_status (recovery (timeline p0)) = PENDING"
    "pe_status (lessons_learned (timeline p0)) = PENDING"
    using assms by (simp_all add: fresh_plan_def Object_values_def Object_entries_def)
  show ?thesis using sn pend
    by (simp add: startResponse_def Let_def progressed_to_def statuses_list truthy_time_def)
qed

text \<open>
  Claim C4. Take a plan that has its steps and notes and whose phases are all pending, start
  it, and call \<open>simulateResponseProgress\<close> on it again and again with percentages between 0
  and 100 that do not decrease. Then every call returns, the set of completed phases never
  shrinks from one returned plan to the next, and after a call with 100 the plan, every
  phase and every step are completed. The percentages are doubles, and the phase index is
  computed as the code does, with its two rounded operations.
\<close>

theorem progress_never_shrinks:
  assumes "fresh_plan p0" and "sorted (map snd calls)"
    and "\<forall>c \<in> set calls. 0 \<le> snd c \<and> snd c \<le> 100"
  shows "\<exists>p1 ps. startResponse t0 p0 = Inr p1 \<and> progress_run calls p1 = Inr ps
     \<and> length ps = length calls \<and> never_shrinks p1 ps
     \<and> list_all2 (\<lambda>c p'. snd c = 100 \<longrightarrow> all_completed p') calls ps"
proof -
  obtain p1 where p1: "startResponse t0 p0 = Inr p1" "progressed_to 0 p1"
    using startResponse_fresh [OF assms(1)] by blast
  have "\<forall>c \<in> set calls. 0 \<le> snd c \<and> snd c \<le> 100 \<and> 0 \<le> phase_number (snd c)"
    using assms(3) by simp
  from progress_run_inv [OF p1(2) assms(2) this] p1(1) show ?thesis by blast
qed

theorem progress_never_shrinks_witness:
  "\<exists>p1 ps. startResponse 1 example_plan = Inr p1 \<and> progress_run [(2, 30), (3, 100)] p1 = Inr ps
     \<and> length ps = 2 \<and> never_shrinks p1 ps
     \<and> list_all2 (\<lambda>c p'. snd c = 100 \<longrightarrow> all_completed p') [(2 :: timestamp, 30 :: rat), (3, 100)] ps"
proof -
  have "fresh_plan example_plan"
    by (simp add: fresh_plan_def example_plan_def Object_values_def Object_entries_def pending_phase_def)
  from progress_never_shrinks [OF this, of "[(2, 30), (3, 100)]" 1] show ?thesis
    by (simp add: numeral_2_eq_2)
qed

section \<open>Time stamps of the phases\<close>

lemma stamp_kept_refl: "stamp_kept a a"
  by (simp add: stamp_kept_def split: option.splits)

lemma stamp_kept_trans: "stamp_kept a b \<Longrightarrow> stamp_kept b c \<Longrightarrow> stamp_kept a c"
  by (auto simp add: stamp_kept_def split: option.splits)

lemma stamp_kept_stamp: "stamp_kept a (stamp now a)"
  by (simp add: stamp_kept_def stamp_def split: option.splits)

lemma stamp_kept_not_None: "stamp_kept a b \<Longrightarrow> a \<noteq> None \<Longrightarrow> b \<noteq> None"
  by (auto simp add: stamp_kept_def split: option.splits)

lemma times_kept_refl: "times_kept r t t"
  by (simp add: times_kept_def Object_values_def Object_entries_def stamp_kept_refl)

lemma times_kept_trans:
  assumes "times_kept a t t'" "times_kept b t' t''"
  shows "times_kept (a \<or> b) t t''"
  using assms unfolding times_kept_def Object_values_def Object_entries_def
  by (auto intro: stamp_kept_trans)

lemma stamp_not_None: "stamp now a \<noteq> None"
  by (simp add: stamp_def split: option.splits)

lemma stamp_Some: "stamp now (Some y) = Some y"
  by (simp add: stamp_def)

lemma mark_times:
  "pe_startTime (mark_current now e) = stamp now (pe_startTime e)"
  "pe_endTime (mark_current now e) = pe_endTime e"
  "pe_startTime (mark_done now e) = stamp now (pe_startTime e)"
  "pe_endTime (mark_done now e) = stamp now (pe_endTime e)"
  by (simp_all add: mark_current_def mark_done_def)

lemma advance_phase_kept:
  assumes "advance_phase now q idx i t = Inr t'"
  shows "times_kept False t t'"
proof -
  from assms obtain ph e where ph: "tl_get ph t = Some e"
    and t': "t' = tl_set ph (if Num (of_nat i) = idx \<and> jlt q (Num 100)
                             then mark_current now e else mark_done now e) t"
    by (auto simp add: advance_phase_def split: option.splits)
  show ?thesis
    using ph unfolding t' times_kept_def Object_values_def Object_entries_def tl_get_def tl_set_def
    by (auto simp add: mark_times stamp_kept_stamp stamp_kept_refl stamp_Some split: if_splits)
qed

lemma advance_phases_kept:
  "advance_phases now q idx js t = Inr t' \<Longrightarrow> times_kept False t t'"
proof (induction js arbitrary: t)
  case Nil
  then show ?case by (simp add: times_kept_refl)
next
  case (Cons j js)
  from Cons.prems obtain t1 where s1: "advance_phase now q idx j t = Inr t1"
    and s2: "advance_phases now q idx js t1 = Inr t'"
    by (auto split: sum.splits)
  from times_kept_trans [OF advance_phase_kept [OF s1] Cons.IH [OF s2]] show ?case by simp
qed

lemma advance_phases_written_kept:
  "times_kept False t (advance_phases_written now q idx js t)"
proof (induction js arbitrary: t)
  case Nil
  then show ?case by (simp add: times_kept_refl)
next
  case (Cons j js)
  show ?case
  proof (cases "advance_phase now q idx j t")
    case (Inl e)
    then show ?thesis by (simp add: times_kept_refl)
  next
    case (Inr t1)
    from times_kept_trans [OF advance_phase_kept [OF Inr] Cons.IH [of t1]] Inr
    show ?thesis by simp
  qed
qed

lemma simulateResponseProgress_kept:
  assumes "simulateResponseProgress now p q = Inr p'"
  shows "times_kept False (timeline p) (timeline p')"
proof (cases "\<not> truthy_time (startTime p) \<or> status p = COMPLETED")
  case True
  with assms have "p' = p" by (auto simp add: simulateResponseProgress_def)
  then show ?thesis by (simp add: times_kept_refl)
next
  case False
  with assms obtain t' where
    "advance_phases now q (currentPhaseIndex q) (loop_range (currentPhaseIndex q)) (timeline p) = Inr t'"
    and "timeline p' = t'"
    by (auto simp add: simulateResponseProgress_def Let_def split: sum.splits option.splits if_splits)
  then show ?thesis using advance_phases_kept by blast
qed

lemma simulateResponseProgress_thrown_kept:
  "times_kept False (timeline p) (timeline (simulateResponseProgress_thrown now p q))"
proof -
  have "timeline (simulateResponseProgress_thrown now p q)
      = advance_phases_written now q (currentPhaseIndex q) (loop_range (currentPhaseIndex q)) (timeline p)"
    by (simp add: simulateResponseProgress_thrown_def Let_def split: sum.splits option.splits)
  then show ?thesis by (simp add: advance_phases_written_kept)
qed

lemma startResponse_timeline:
  assumes "startResponse now p = Inr p'"
  shows "timeline p' = (timeline p) \<lparr> identification :=
      (identification (timeline p)) \<lparr> pe_status := IN_PROGRESS, pe_startTime := Some now \<rparr> \<rparr>"
  using assms by (auto simp add: startResponse_def Let_def split: option.splits)

lemma startResponse_thrown_timeline:
  "timeline (startResponse_thrown now p) = (timeline p) \<lparr> identification :=
      (identification (timeline p)) \<lparr> pe_status := IN_PROGRESS, pe_startTime := Some now \<rparr> \<rparr>"
  by (simp add: startResponse_thrown_def Let_def split: option.splits)

lemma restamp_kept:
  "times_kept True t (t \<lparr> identification := (identification t) \<lparr> pe_status := s, pe_startTime := Some now \<rparr> \<rparr>)"
  by (simp add: times_kept_def Object_values_def Object_entries_def stamp_kept_refl)

lemma updateResponsePhase_timeline:
  assumes "updateResponsePhase now p newPhase phaseNote = Inr p'"
  shows "timeline p' = timeline p"
  using assms by (auto simp add: updateResponsePhase_def Let_def split: option.splits)

lemma after_operation_kept:
  "times_kept (is_start x) (timeline p) (timeline (after_operation x p))"
proof (cases x)
  case (StartResponse now)
  then show ?thesis
    by (cases "startResponse now p")
       (simp_all add: startResponse_thrown_timeline startResponse_timeline restamp_kept)
next
  case (SimulateResponseProgress now q)
  then show ?thesis
    by (cases "simulateResponseProgress now p q")
       (simp_all add: simulateResponseProgress_thrown_kept simulateResponseProgress_kept)
next
  case (UpdateResponsePhase now newPhase phaseNote)
  then show ?thesis
    by (cases "updateResponsePhase now p newPhase phaseNote")
       (simp_all add: times_kept_refl updateResponsePhase_timeline)
qed

lemma after_operations_kept:
  "times_kept (list_ex is_start ops) (timeline p) (timeline (after_operations ops p))"
proof (induction ops arbitrary: p)
  case Nil
  then show ?case by (simp add: times_kept_refl)
next
  case (Cons x xs)
  from times_kept_trans [OF after_operation_kept [of x p] Cons.IH [of "after_operation x p"]]
  show ?case by simp
qed

lemma after_start_stamp:
  "pe_startTime (identification (timeline (after_operation (StartResponse now) p))) = Some now"
  by (cases "startResponse now p") (simp_all add: startResponse_thrown_timeline startResponse_timeline)

lemma last_start_None: "last_start ops = None \<longleftrightarrow> \<not> list_ex is_start ops"
proof (induction ops)
  case Nil
  then show ?case by simp
next
  case (Cons x xs)
  then show ?case by (cases x) (auto split: option.splits)
qed

lemma after_operations_last_start:
  "last_start_kept ops (timeline (after_operations ops p))"
proof (induction ops arbitrary: p)
  case Nil
  then show ?case by (simp add: last_start_kept_def)
next
  case (Cons x xs)
  show ?case
  proof (cases "last_start xs")
    case (Some t)
    with Cons.IH [of "after_operation x p"] show ?thesis by (simp add: last_start_kept_def)
  next
    case None
    show ?thesis
    proof (cases x)
      case (StartResponse now)
      have "\<not> list_ex is_start xs" using None by (simp add: last_start_None)
      then have "times_kept False (timeline (after_operation x p))
          (timeline (after_operations xs (after_operation x p)))"
        using after_operations_kept [of xs "after_operation x p"] by simp
      then have "stamp_kept (pe_startTime (identification (timeline (after_operation x p))))
          (pe_startTime (identification (timeline (after_operations xs (after_operation x p)))))"
        by (simp add: times_kept_def)
      moreover have "pe_startTime (identification (timeline (after_operation x p))) = Some now"
        unfolding StartResponse by (rule after_start_stamp)
      ultimately have "pe_startTime (identification
          (timeline (after_operations xs (after_operation x p)))) = Some now"
        by (simp add: stamp_kept_def)
      then show ?thesis
        using StartResponse None by (simp add: last_start_kept_def del: after_operation.simps)
    next
      case (SimulateResponseProgress now q)
      with None show ?thesis by (simp add: last_start_kept_def)
    next
      case (UpdateResponsePhase now newPhase phaseNote)
      with None show ?thesis by (simp add: last_start_kept_def)
    qed
  qed
qed

lemma run_operations_after:
  "run_operations ops p = Inr p' \<Longrightarrow> after_operations ops p = p'"
proof (induction ops arbitrary: p)
  case Nil
  then show ?case by simp
next
  case (Cons x xs)
  from Cons.prems obtain p1 where s1: "apply_operation x p = Inr p1"
    and s2: "run_operations xs p1 = Inr p'"
    by (auto split: sum.splits)
  from s1 have "after_operation x p = p1" by (cases x) simp_all
  with Cons.IH [OF s2] show ?case by simp
qed

text \<open>
  Claim C9, as stated: in every sequence of \<open>startResponse\<close>, \<open>simulateResponseProgress\<close> and
  \<open>updateResponsePhase\<close> a phase's start time, once set, is never overwritten. It fails for
  the identification phase: \<open>startResponse\<close> assigns its start time without looking at it,
  so starting the example plan at time 1 and again at time 2 replaces the start time 1 by 2.
\<close>

theorem startResponse_restamps:
  "phase_start IDENTIFICATION (run_operations [StartResponse 1] example_plan) = Some 1
   \<and> phase_start IDENTIFICATION (run_operations [StartResponse 1, StartResponse 2] example_plan) = Some 2"
  by (simp add: phase_start_def startResponse_def example_plan_def Let_def tl_get_def)

text \<open>
  Claim C9, amended. Through every sequence of calls of the three operations, on every
  plan, whether the calls return or throw, every phase keeps an end time that was set,
  every phase other than identification keeps a start time that was set, and the start
  time of the identification phase is never cleared. It keeps its value as long as the
  sequence holds no \<open>startResponse\<close>; every call of \<open>startResponse\<close> assigns it the time of
  the call, so after a sequence that holds one it is the time of the last such call.
\<close>

theorem after_operations_times_kept:
  "times_kept (list_ex is_start ops) (timeline p) (timeline (after_operations ops p))
   \<and> last_start_kept ops (timeline (after_operations ops p))"
  by (simp add: after_operations_kept after_operations_last_start)

theorem after_operations_times_kept_witness:
  "pe_endTime (identification (timeline (after_operations
       [SimulateResponseProgress 3 (Num 100), StartResponse 5] example_started_plan))) = Some 2
   \<and> pe_startTime (containment (timeline (after_operations
       [SimulateResponseProgress 3 (Num 100), StartResponse 5] example_started_plan))) = Some 2
   \<and> pe_startTime (identification (timeline (after_operations
       [SimulateResponseProgress 3 (Num 100), StartResponse 5] example_started_plan))) = Some 5
   \<and> startResponse 5 (example_started_plan \<lparr> notes := None \<rparr>) = Inl TypeError
   \<and> pe_endTime (identification (timeline (after_operations
       [StartResponse 5] (example_started_plan \<lparr> notes := None \<rparr>)))) = Some 2
   \<and> pe_startTime (identification (timeline (after_operations
       [StartResponse 5] (example_started_plan \<lparr> notes := None \<rparr>)))) = Some 5"
proof -
  have throws: "startResponse 5 (example_started_plan \<lparr> notes := None \<rparr>) = Inl TypeError"
    by (simp add: startResponse_def Let_def example_started_plan_def example_plan_def)
  have t: "timeline (example_started_plan \<lparr> notes := None \<rparr>) = timeline example_started_plan"
    by simp
  have e: "pe_endTime (identification (timeline example_started_plan)) = Some 2"
    "pe_startTime (containment (timeline example_started_plan)) = Some 2"
    by (simp_all add: example_started_plan_def)
  from after_operations_times_kept
    [of "[SimulateResponseProgress 3 (Num 100), StartResponse 5]" example_started_plan]
  have "pe_endTime (identification (timeline (after_operations
       [SimulateResponseProgress 3 (Num 100), StartResponse 5] example_started_plan))) = Some 2
     \<and> pe_startTime (containment (timeline (after_operations
       [SimulateResponseProgress 3 (Num 100), StartResponse 5] example_started_plan))) = Some 2
     \<and> pe_startTime (identification (timeline (after_operations
       [SimulateResponseProgress 3 (Num 100), StartResponse 5] example_started_plan))) = Some 5"
    unfolding times_kept_def last_start_kept_def Object_values_def Object_entries_def
    by (simp add: e stamp_kept_def del: after_operations.simps)
  moreover from after_operations_times_kept
    [of "[StartResponse 5]" "example_started_plan \<lparr> notes := None \<rparr>"]
  have "pe_endTime (identification (timeline (after_operations
       [StartResponse 5] (example_started_plan \<lparr> notes := None \<rparr>)))) = Some 2
     \<and> pe_startTime (identification (timeline (after_operations
       [StartResponse 5] (example_started_plan \<lparr> notes := None \<rparr>)))) = Some 5"
    unfolding times_kept_def last_start_kept_def Object_values_def Object_entries_def t
    by (simp add: e stamp_kept_def del: after_operations.simps)
  ultimately show ?thesis using throws by simp
qed

section \<open>What the operations keep\<close>

lemma mark_duration:
  "estimatedDuration (mark_current now e) = estimatedDuration e"
  "estimatedDuration (mark_done now e) = estimatedDuration e"
  by (simp_all add: mark_current_def mark_done_def)

lemma advance_phase_durations:
  assumes "advance_phase now q idx i t = Inr t'"
  shows "map estimatedDuration (Object_values t') = map estimatedDuration (Object_values t)"
proof -
  from assms obtain ph e where ph: "tl_get ph t = Some e"
    and t': "t' = tl_set ph (if Num (of_nat i) = idx \<and> jlt q (Num 100)
                             then mark_current now e else mark_done now e) t"
    by (auto simp add: advance_phase_def split: option.splits)
  show ?thesis
    using ph unfolding t' Object_values_def Object_entries_def tl_get_def tl_set_def
    by (auto simp add: mark_duration split: if_splits)
qed

lemma advance_phases_durations:
  "advance_phases now q idx js t = Inr t'
     \<Longrightarrow> map estimatedDuration (Object_values t') = map estimatedDuration (Object_values t)"
proof (induction js arbitrary: t)
  case Nil
  then show ?case by simp
next
  case (Cons j js)
  from Cons.prems obtain t1 where s1: "advance_phase now q idx j t = Inr t1"
    and s2: "advance_phases now q idx js t1 = Inr t'"
    by (auto split: sum.splits)
  from advance_phase_durations [OF s1] Cons.IH [OF s2] show ?case by simp
qed

lemma apply_operation_keeps:
  assumes "apply_operation x p = Inr p'"
  shows "map estimatedDuration (Object_values (timeline p'))
           = map estimatedDuration (Object_values (timeline p))
         \<and> estimatedCompletionTime p' = estimatedCompletionTime p
         \<and> incidentId p' = incidentId p"
proof (cases x)
  case (StartResponse now)
  with assms show ?thesis
    by (auto simp add: startResponse_def Let_def Object_values_def Object_entries_def
        split: option.splits)
next
  case (SimulateResponseProgress now q)
  show ?thesis
  proof (cases "\<not> truthy_time (startTime p) \<or> status p = COMPLETED")
    case True
    with assms SimulateResponseProgress have "p' = p" by (auto simp add: simulateResponseProgress_def)
    then show ?thesis by simp
  next
    case False
    with assms SimulateResponseProgress obtain t' where
      "advance_phases now q (currentPhaseIndex q) (loop_range (currentPhaseIndex q)) (timeline p) = Inr t'"
      and "timeline p' = t'" and "estimatedCompletionTime p' = estimatedCompletionTime p"
      and "incidentId p' = incidentId p"
      by (auto simp add: simulateResponseProgress_def Let_def split: sum.splits option.splits if_splits)
    then show ?thesis using advance_phases_durations by simp
  qed
next
  case (UpdateResponsePhase now newPhase phaseNote)
  with assms show ?thesis
    by (auto simp add: updateResponsePhase_def Let_def split: option.splits)
qed

lemma run_operations_keeps:
  "run_operations ops p = Inr p'
     \<Longrightarrow> map estimatedDuration (Object_values (timeline p'))
           = map estimatedDuration (Object_values (timeline p))
         \<and> estimatedCompletionTime p' = estimatedCompletionTime p
         \<and> incidentId p' = incidentId p"
proof (induction ops arbitrary: p)
  case Nil
  then show ?case by simp
next
  case (Cons x xs)
  from Cons.prems obtain p1 where s1: "apply_operation x p = Inr p1"
    and s2: "run_operations xs p1 = Inr p'"
    by (auto split: sum.splits)
  from apply_operation_keeps [OF s1] Cons.IH [OF s2] show ?case by simp
qed









lemma round_trip_of_a_plan:
  assumes "fresh_plan p0"
  shows "\<exists>p1 p2 rep. startResponse t1 p0 = Inr p1 \<and> simulateResponseProgress t2 p1 (Num 100) = Inr p2
     \<and> generateResponseReport p2 = Inr (Completed rep) \<and> fr_incidentId rep = incidentId p0"
proof -
  obtain p1 where p1: "startResponse t1 p0 = Inr p1" "progressed_to 0 p1"
    using startResponse_fresh [OF assms] by blast
  obtain p2 where p2: "simulateResponseProgress t2 p1 (Num 100) = Inr p2" "all_completed p2"
    using progress_call [OF p1(2), of 100 t2] by auto
  have "incidentId p1 = incidentId p0"
    using apply_operation_keeps [of "StartResponse t1" p0 p1] p1(1) by simp
  moreover have "incidentId p2 = incidentId p1"
    using apply_operation_keeps [of "SimulateResponseProgress t2 (Num 100)" p1 p2] p2(1) by simp
  moreover obtain ss where "status p2 = COMPLETED" "responseSteps p2 = Some ss"
    using p2(2) by (auto simp add: all_completed_def split: option.splits)
  ultimately have "\<exists>rep. generateResponseReport p2 = Inr (Completed rep) \<and> fr_incidentId rep = incidentId p0"
    by (simp add: generateResponseReport_def Let_def)
  then show ?thesis using p1(1) p2(1) by blast
qed

section \<open>The two constructors of a response plan\<close>

lemma generateResponseSteps_alert: "generateResponseSteps (ActionAlert a) t = Inl TypeError"
  by (simp add: generateResponseSteps_def)

lemma generateResponseSteps_string: "generateResponseSteps (ActionString x) t = Inl TypeError"
  by (simp add: generateResponseSteps_def)

lemma generateResponseSteps_no_timeline: "generateResponseSteps a TimelineUndefined = Inl TypeError"
  by (cases a) (auto simp add: generateResponseSteps_def timeline_entry_def split: sum.splits
      intro: error.exhaust)


lemma startResponse_without_steps: "responseSteps p = None \<Longrightarrow> startResponse now p = Inl TypeError"
  by (simp add: startResponse_def Let_def)

lemma nan_timeline: "calculateEstimatedCompletionTime (createResponseTimeline None None) = NaN"
  by (simp add: calculateEstimatedCompletionTime_def createResponseTimeline_def severityMultiplier_def
      Object_values_def Object_entries_def pending_phase_def)

lemma constructors_at_examples:
  "createResponsePlan draws r now example_alert = Inl TypeError
   \<and> initiateResponse rid now example_incident = Inl TypeError"
  by (simp add: createResponsePlan_def initiateResponse_def Let_def generateResponseSteps_alert
      generateResponseSteps_string)


text \<open>
  Claim C2. No operation of the core throws; in particular \<open>createResponsePlan(threatAlert)\<close>
  returns a plan for every threat alert.

  The code does the opposite. \<open>createResponsePlan\<close> calls
  \<open>generateResponseSteps(threatAlert)\<close>, whose first parameter is the list of recommended
  actions and whose second parameter, the timeline, is then \<open>undefined\<close>. The alert has no
  \<open>forEach\<close>, so the call throws a \<open>TypeError\<close> for every alert, and
  \<open>createResponsePlan\<close> never returns.
\<close>

theorem createResponsePlan_throws:
  "createResponsePlan draws r now threatAlert = Inl TypeError"
  by (simp add: createResponsePlan_def Let_def generateResponseSteps_alert)

text \<open>
  Claim C1. \<open>createResponsePlan(alert)\<close>, then \<open>startResponse\<close>, then
  \<open>simulateResponseProgress(plan, 100)\<close>, then \<open>generateResponseReport(plan)\<close> yields a
  report whose \<open>incidentId\<close> is \<open>alert.id\<close>.

  This composition is \<open>simulateIncidentResponse(alert, 100)\<close>. For every alert it throws
  in its first call and yields no report. The object that \<open>createResponsePlan\<close> is
  written to return would not pass the second call either: it has no \<open>responseSteps\<close>, on
  which \<open>startResponse\<close> throws (\<open>startResponse_without_steps\<close>). On a plan that has its
  steps and notes the same three calls do yield the report with the plan's \<open>incidentId\<close>
  (\<open>round_trip_of_a_plan\<close>).
\<close>

theorem round_trip_throws:
  "simulateIncidentResponse draws r t0 t1 t2 threatAlert (Num 100) = Inl TypeError"
  by (simp add: simulateIncidentResponse_def createResponsePlan_def Let_def generateResponseSteps_alert)



end
